theory Spec2Isabelle
  imports Complex_Main "HOL-Library.Sublist" "HOL-Library.List_Lexorder" "HOL-Library.Char_ord"
    "HOL-Library.AList"
begin

section \<open>Python values\<close>

text \<open>
  A Python float is a finite number, an infinity or NaN. Finite floats are embedded in the
  reals and arithmetic on them is exact. The decimal literals that
  \<^verbatim>\<open>determine_final_prediction\<close> compares with are kept as written: \<open>0.5\<close>, \<open>1.5\<close>
  and \<open>2.5\<close> are doubles, and the doubles nearest to \<open>1.4\<close>, \<open>2.4\<close> and \<open>3.4\<close> lie
  below them, so that \<open>x <= 1.4\<close> on a double \<open>x\<close> is \<open>x \<le> 1.4\<close> on the reals.
\<close>

datatype pyfloat = Finite real | PosInf | NegInf | NaN

text \<open>\<^verbatim>\<open>pred_val == c\<close> for a finite constant \<open>c\<close>.\<close>

fun fl_eq :: "pyfloat \<Rightarrow> real \<Rightarrow> bool" where
  "fl_eq (Finite x) c = (x = c)"
| "fl_eq PosInf c = False"
| "fl_eq NegInf c = False"
| "fl_eq NaN c = False"

text \<open>The chained comparison \<^verbatim>\<open>lo <= pred_val <= hi\<close> for finite constants.\<close>

fun fl_between :: "real \<Rightarrow> pyfloat \<Rightarrow> real \<Rightarrow> bool" where
  "fl_between lo (Finite x) hi = (lo \<le> x \<and> x \<le> hi)"
| "fl_between lo PosInf hi = False"
| "fl_between lo NegInf hi = False"
| "fl_between lo NaN hi = False"

text \<open>
  The values a raw prediction takes: an int, a float, a string (a class label) or
  \<^verbatim>\<open>None\<close>.
\<close>

datatype pyval = PyInt int | PyFloat pyfloat | PyStr string | PyNone

definition digit_val :: "char \<Rightarrow> nat" where
  "digit_val c = of_char c - 48"

definition is_digit :: "char \<Rightarrow> bool" where
  "is_digit c = (48 \<le> (of_char c :: nat) \<and> (of_char c :: nat) \<le> 57)"

definition digits_val :: "string \<Rightarrow> nat" where
  "digits_val s = foldl (\<lambda>n c. 10 * n + digit_val c) 0 s"

section \<open>\<^verbatim>\<open>determine_final_prediction\<close> (predictor/analytics.py)\<close>

text \<open>The string \<^verbatim>\<open>"\<close>U+2757\<^verbatim>\<open> Invalid prediction"\<close>; the mark is three bytes in UTF-8.\<close>

definition invalid_prediction :: string where
  "invalid_prediction = [CHR 0xE2, CHR 0x9D, CHR 0x97] @ '' Invalid prediction''"

text \<open>
  Step 1 of the function: the if/elif chain that maps \<^verbatim>\<open>pred_val\<close> to the model
  outcome; \<open>None\<close> is the final \<^verbatim>\<open>else\<close>, which returns the invalid-prediction string.
\<close>

definition model_outcome_of :: "pyfloat \<Rightarrow> string option" where
  "model_outcome_of pred_val =
     (if fl_eq pred_val 0 then Some ''Away Team Win''
      else if fl_eq pred_val 1 then Some ''Draw''
      else if fl_eq pred_val 2 then Some ''Home Team Win''
      else if fl_between 0.5 pred_val 1.4 then Some ''Away Team Win''
      else if fl_between 1.5 pred_val 2.4 then Some ''Draw''
      else if fl_between 2.5 pred_val 3.4 then Some ''Home Team Win''
      else None)"

text \<open>
  \<^verbatim>\<open>max(probs.values())\<close>; on no value Python raises \<^verbatim>\<open>ValueError\<close>.
\<close>

fun py_max :: "real list \<Rightarrow> real option" where
  "py_max [] = None"
| "py_max (x # xs) = Some (foldl max x xs)"

text \<open>
  The historical probabilities are a dictionary from outcome labels to percentages, kept
  in insertion order; \<open>None\<close> stands for a value that is not a dictionary (or is
  \<^verbatim>\<open>None\<close>). The function's \<^verbatim>\<open>try\<close> body is the \<open>Some\<close> branch of the conversion,
  its \<^verbatim>\<open>except\<close> clause the \<open>None\<close> branches.
\<close>

type_synonym probs = "(string \<times> real) list"

definition determine_final_prediction ::
    "('p \<Rightarrow> pyfloat option) \<Rightarrow> 'p \<Rightarrow> probs option \<Rightarrow> string" where
  "determine_final_prediction float pred probs =
     (case float pred of
        None \<Rightarrow> ''Home Team Win''
      | Some pred_val \<Rightarrow>
         (case model_outcome_of pred_val of
            None \<Rightarrow> invalid_prediction
          | Some model_outcome \<Rightarrow>
             (case probs of
                None \<Rightarrow> model_outcome
              | Some ps \<Rightarrow>
                 if length ps = 0 then model_outcome
                 else
                  (case py_max (map snd ps) of
                     None \<Rightarrow> ''Home Team Win''
                   | Some max_prob \<Rightarrow>
                      (let highest_outcomes = map fst (filter (\<lambda>(k, v). v = max_prob) ps);
                           close_ties = map fst (filter (\<lambda>(k, v). \<bar>v - max_prob\<bar> \<le> 5
                                            \<and> k \<notin> set highest_outcomes) ps);
                           all_close_outcomes = highest_outcomes @ close_ties
                       in
                        if length highest_outcomes = 1 \<and> length close_ties = 0
                          then model_outcome
                        else if (''Home Team Win'' \<in> set highest_outcomes
                                  \<and> ''Away Team Win'' \<in> set highest_outcomes)
                              \<or> (''Home Team Win'' \<in> set all_close_outcomes
                                  \<and> ''Away Team Win'' \<in> set all_close_outcomes
                                  \<and> length all_close_outcomes = 2)
                          then (if model_outcome = ''Draw''
                                then ''Home Team Win or Away Team Win''
                                else model_outcome)
                        else if (''Home Team Win'' \<in> set highest_outcomes
                                  \<and> ''Draw'' \<in> set highest_outcomes)
                              \<or> (''Home Team Win'' \<in> set all_close_outcomes
                                  \<and> ''Draw'' \<in> set all_close_outcomes
                                  \<and> length all_close_outcomes = 2)
                          then (if model_outcome = ''Away Team Win''
                                then ''Home Team Win or Draw''
                                else if model_outcome \<in> set highest_outcomes
                                then model_outcome else ''Home Team Win or Draw'')
                        else if (''Away Team Win'' \<in> set highest_outcomes
                                  \<and> ''Draw'' \<in> set highest_outcomes)
                              \<or> (''Away Team Win'' \<in> set all_close_outcomes
                                  \<and> ''Draw'' \<in> set all_close_outcomes
                                  \<and> length all_close_outcomes = 2)
                          then (if model_outcome = ''Home Team Win''
                                then ''Away Team Win or Draw''
                                else if model_outcome \<in> set highest_outcomes
                                then model_outcome else ''Away Team Win or Draw'')
                        else if length highest_outcomes = 3 then model_outcome
                        else model_outcome)))))"

text \<open>
  The historical probability triple as the engine builds it: the keys
  \<^verbatim>\<open>"Home Team Win"\<close>, \<^verbatim>\<open>"Draw"\<close>, \<^verbatim>\<open>"Away Team Win"\<close>, in this order.
\<close>

definition triple :: "real \<Rightarrow> real \<Rightarrow> real \<Rightarrow> probs" where
  "triple h d a = [(''Home Team Win'', h), (''Draw'', d), (''Away Team Win'', a)]"

text \<open>
  One clear historical winner, in the words of the specification: one outcome is the
  unique maximum and each of the other two lies more than 5 percentage points below it.
\<close>

definition clear_winner :: "real \<Rightarrow> real \<Rightarrow> real \<Rightarrow> bool" where
  "clear_winner h d a =
     ((d < h - 5 \<and> a < h - 5) \<or> (h < d - 5 \<and> a < d - 5) \<or> (h < a - 5 \<and> d < a - 5))"

section \<open>Strings\<close>

text \<open>
  The string methods the engine calls, on ASCII: \<^verbatim>\<open>str.strip()\<close> removes the
  whitespace characters at both ends, \<^verbatim>\<open>str.lower()\<close> maps \<open>A\<close> to \<open>Z\<close> to lower case,
  \<^verbatim>\<open>str.replace(old, new)\<close> replaces the occurrences of a non-empty \<open>old\<close> from the
  left, \<^verbatim>\<open>startswith\<close> is \<^const>\<open>prefix\<close> and \<^verbatim>\<open>x in s\<close> is \<^const>\<open>sublist\<close>.
\<close>

definition is_space :: "char \<Rightarrow> bool" where
  "is_space c = (let n = (of_char c :: nat) in (9 \<le> n \<and> n \<le> 13) \<or> (28 \<le> n \<and> n \<le> 32))"

definition py_strip :: "string \<Rightarrow> string" where
  "py_strip s = rev (dropWhile is_space (rev (dropWhile is_space s)))"

definition lower_char :: "char \<Rightarrow> char" where
  "lower_char c = (let n = (of_char c :: nat) in if 65 \<le> n \<and> n \<le> 90 then char_of (n + 32) else c)"

definition py_lower :: "string \<Rightarrow> string" where
  "py_lower s = map lower_char s"

function py_replace :: "string \<Rightarrow> string \<Rightarrow> string \<Rightarrow> string" where
  "py_replace old new [] = []"
| "py_replace old new (c # cs) =
     (if old \<noteq> [] \<and> prefix old (c # cs)
      then new @ py_replace old new (drop (length old) (c # cs))
      else c # py_replace old new cs)"
  by pat_completeness auto
termination
  by (relation "measure (\<lambda>(old, new, s). length s)") auto

section \<open>The builtin \<^verbatim>\<open>float\<close>\<close>

text \<open>
  The functions of the repository take the conversion \<^verbatim>\<open>float(pred)\<close> as a parameter;
  \<open>py_float\<close> is the builtin on the values above, for the concrete scenarios. \<open>None\<close> is
  a raised exception (\<^verbatim>\<open>ValueError\<close>, \<^verbatim>\<open>TypeError\<close> or \<^verbatim>\<open>OverflowError\<close>), each of which
  the \<^verbatim>\<open>except Exception\<close> clause of \<^verbatim>\<open>determine_final_prediction\<close> catches.

  A string is trimmed and read by the grammar of the language reference: an optional
  sign, then \<^verbatim>\<open>inf\<close>, \<^verbatim>\<open>infinity\<close> or \<^verbatim>\<open>nan\<close> in any case, or a decimal number
  (digits with single underscores between them, an optional point and fraction) with an
  optional exponent. The value is the exact decimal: rounding to the nearest double is
  not modelled, except that a magnitude that rounds beyond the largest double
  (\<open>2\<^sup>1\<^sup>0\<^sup>2\<^sup>4 - 2\<^sup>9\<^sup>7\<^sup>0\<close> and above) is an infinity for a string and an \<^verbatim>\<open>OverflowError\<close>
  for an int. Digits are the ASCII digits.
\<close>

definition digitpart :: "string \<Rightarrow> string option" where
  "digitpart s =
     (if s \<noteq> [] \<and> list_all (\<lambda>c. is_digit c \<or> c = CHR ''_'') s \<and> is_digit (hd s)
         \<and> is_digit (last s) \<and> \<not> sublist ''__'' s
      then Some (filter is_digit s) else None)"

definition split_sign :: "string \<Rightarrow> bool \<times> string" where
  "split_sign s = (case s of [] \<Rightarrow> (False, [])
                   | c # cs \<Rightarrow> if c = CHR ''-'' then (True, cs)
                              else if c = CHR ''+'' then (False, cs) else (False, s))"

definition number_of_string :: "string \<Rightarrow> real option" where
  "number_of_string m =
     (let ip = takeWhile (\<lambda>c. c \<noteq> CHR ''.'') m;
          fr = dropWhile (\<lambda>c. c \<noteq> CHR ''.'') m
      in if fr = [] then map_option (\<lambda>ds. real (digits_val ds)) (digitpart ip)
         else if ip = []
           then map_option (\<lambda>fs. real (digits_val fs) / 10 ^ length fs) (digitpart (tl fr))
         else (case digitpart ip of
                 None \<Rightarrow> None
               | Some ds \<Rightarrow>
                   if tl fr = [] then Some (real (digits_val ds))
                   else map_option (\<lambda>fs. real (digits_val ds) + real (digits_val fs) / 10 ^ length fs)
                          (digitpart (tl fr))))"

definition exponent_of_string :: "string \<Rightarrow> int option" where
  "exponent_of_string e =
     (if e = [] then Some 0
      else (case split_sign (tl e) of (negative, ds) \<Rightarrow>
              map_option (\<lambda>ds. if negative then - int (digits_val ds) else int (digits_val ds))
                (digitpart ds)))"

definition overflow_bound :: real where
  "overflow_bound = 2 ^ 1024 - 2 ^ 970"

definition float_of_string :: "string \<Rightarrow> pyfloat option" where
  "float_of_string s =
     (case split_sign (py_lower (py_strip s)) of (negative, u) \<Rightarrow>
        if u = ''inf'' \<or> u = ''infinity'' then Some (if negative then NegInf else PosInf)
        else if u = ''nan'' then Some NaN
        else
          (case (number_of_string (takeWhile (\<lambda>c. c \<noteq> CHR ''e'') u),
                 exponent_of_string (dropWhile (\<lambda>c. c \<noteq> CHR ''e'') u)) of
             (Some m, Some e) \<Rightarrow>
               (let v = (if e \<ge> 0 then m * 10 ^ nat e else m / 10 ^ nat (- e))
                in if v \<ge> overflow_bound then Some (if negative then NegInf else PosInf)
                   else Some (Finite (if negative then - v else v)))
           | _ \<Rightarrow> None))"

fun py_float :: "pyval \<Rightarrow> pyfloat option" where
  "py_float (PyInt i) =
     (if \<bar>real_of_int i\<bar> \<ge> overflow_bound then None else Some (Finite (real_of_int i)))"
| "py_float (PyFloat f) = Some f"
| "py_float (PyStr s) = float_of_string s"
| "py_float PyNone = None"

section \<open>Tables\<close>

text \<open>
  A historical table is a pandas DataFrame: its column names, its rows, and the
  \<^verbatim>\<open>attrs['version']\<close> tag the loader may have set. A row carries the four fields the
  engine reads, whatever the columns are called (\<^verbatim>\<open>HomeTeam/AwayTeam/FTR\<close> or
  \<^verbatim>\<open>Home/Away/Res\<close>, and \<^verbatim>\<open>Date\<close>); the functions test the presence of a column by its
  name, as the source does. A team cell is text or missing (NaN); a result cell is text, a
  number or missing. A date cell records what \<^verbatim>\<open>pd.to_datetime(..., errors="coerce")\<close>
  makes of it: \<open>Date t\<close> parses in the first pass, \<open>DayFirst t\<close> only with
  \<^verbatim>\<open>dayfirst=True\<close>, \<open>NoDate\<close> in neither (\<open>NaT\<close>). The loader's empty sentinels (an
  empty DataFrame and the mock \<^verbatim>\<open>EmptyDataFrame\<close>) have no column and no row.
\<close>

datatype cell = Str string | Num real | Missing

datatype date_cell = Date int | DayFirst int | NoDate

record row =
  home_team :: "string option"
  away_team :: "string option"
  result :: cell
  date :: date_cell

record table =
  columns :: "string list"
  rows :: "row list"
  attrs_version :: "string option"

definition empty_table :: table where
  "empty_table = \<lparr>columns = [], rows = [], attrs_version = None\<rparr>"

text \<open>\<^verbatim>\<open>data.empty\<close>: an axis of length 0.\<close>

definition df_empty :: "table \<Rightarrow> bool" where
  "df_empty data = (rows data = [] \<or> columns data = [])"

text \<open>\<^verbatim>\<open>astype(str)\<close> on a team cell: NaN becomes the string \<^verbatim>\<open>nan\<close>.\<close>

definition astype_str :: "string option \<Rightarrow> string" where
  "astype_str c = (case c of None \<Rightarrow> ''nan'' | Some s \<Rightarrow> s)"

definition get_column_names :: "string \<Rightarrow> string \<times> string \<times> string" where
  "get_column_names version =
     (if version = ''v2'' then (''Home'', ''Away'', ''Res'')
      else (''HomeTeam'', ''AwayTeam'', ''FTR''))"

definition has_v2_columns :: "table \<Rightarrow> bool" where
  "has_v2_columns data =
     (''Home'' \<in> set (columns data) \<and> ''Away'' \<in> set (columns data)
      \<and> ''Res'' \<in> set (columns data))"

definition has_v1_columns :: "table \<Rightarrow> bool" where
  "has_v1_columns data =
     (''HomeTeam'' \<in> set (columns data) \<and> ''AwayTeam'' \<in> set (columns data)
      \<and> ''FTR'' \<in> set (columns data))"


definition to_datetime_dayfirst_retry :: "date_cell \<Rightarrow> int option" where
  "to_datetime_dayfirst_retry d =
     (case d of Date t \<Rightarrow> Some t | DayFirst t \<Rightarrow> Some t | NoDate \<Rightarrow> None)"

definition dropna_date :: "(date_cell \<Rightarrow> int option) \<Rightarrow> row list \<Rightarrow> (int \<times> row) list" where
  "dropna_date parse rs = List.map_filter (\<lambda>r. map_option (\<lambda>t. (t, r)) (parse (date r))) rs"

text \<open>
  \<^verbatim>\<open>sort_values("Date", ascending=False).head(5)\<close>: rows of equal date keep their order.
\<close>

definition most_recent_5 :: "(int \<times> row) list \<Rightarrow> row list" where
  "most_recent_5 df = map snd (take 5 (sort_key (\<lambda>(t, r). - t) df))"

section \<open>Team form (predictor/analytics.py)\<close>

text \<open>
  The synthetic form: \<open>team_hash\<close> is
  \<^verbatim>\<open>int(hashlib.md5(name.encode()).hexdigest()[:8], 16)\<close>; the functions below take the
  hash function as the parameter \<open>md5\<close>.
\<close>

definition hash_form_char :: "int \<Rightarrow> nat \<Rightarrow> char" where
  "hash_form_char team_hash i =
     (let rand_val = (team_hash + int i * 7919) mod 100
      in if rand_val < 40 then CHR ''W'' else if rand_val < 70 then CHR ''D'' else CHR ''L'')"

definition hash_form :: "int \<Rightarrow> string" where
  "hash_form team_hash = map (hash_form_char team_hash) [0..<5]"

text \<open>The loop body that turns a row into a letter, for a team that is home or not.\<close>

definition form_letter :: "cell \<Rightarrow> bool \<Rightarrow> char" where
  "form_letter res is_home =
     (if res = Str ''D'' then CHR ''D''
      else if (res = Str ''H'' \<and> is_home) \<or> (res = Str ''A'' \<and> \<not> is_home) then CHR ''W''
      else CHR ''L'')"


text \<open>The name variations of \<^verbatim>\<open>get_team_recent_form_original\<close>.\<close>

definition team_variations :: "string \<Rightarrow> string list" where
  "team_variations team_name_clean =
     [team_name_clean, py_lower team_name_clean]
     @ (if prefix ''FC '' team_name_clean
        then [py_strip (drop 3 team_name_clean), py_lower (py_strip (drop 3 team_name_clean))]
        else [])
     @ (if sublist '' FC'' team_name_clean
        then [py_strip (py_replace '' FC'' [] team_name_clean),
              py_lower (py_strip (py_replace '' FC'' [] team_name_clean))]
        else [])
     @ (if sublist ''Club'' team_name_clean
        then [py_strip (py_replace ''Club'' [] (py_replace ''Club '' [] team_name_clean)),
              py_lower (py_strip (py_replace ''Club'' [] (py_replace ''Club '' [] team_name_clean)))]
        else [])"

text \<open>
  The loop over the variations: the first one longer than two characters that matches a
  row (on the unstripped cells) decides; no match leaves the selection empty.
\<close>

fun try_variations :: "(int \<times> row) list \<Rightarrow> string list \<Rightarrow> (int \<times> row) list" where
  "try_variations df [] = []"
| "try_variations df (variation # vs) =
     (if variation \<noteq> [] \<and> length variation > 2
      then (let recent_matches = filter (\<lambda>(t, r). astype_str (home_team r) = variation
                                           \<or> astype_str (away_team r) = variation) df
            in if recent_matches \<noteq> [] then recent_matches else try_variations df vs)
      else try_variations df vs)"

definition select_recent_matches :: "string \<Rightarrow> (int \<times> row) list \<Rightarrow> (int \<times> row) list" where
  "select_recent_matches team_name_clean df =
     (let team_name_lower = py_lower team_name_clean;
          recent_matches = filter (\<lambda>(t, r). py_strip (astype_str (home_team r)) = team_name_clean
                                     \<or> py_strip (astype_str (away_team r)) = team_name_clean) df;
          recent_matches = (if recent_matches = []
                            then try_variations df (tl (team_variations team_name_clean))
                            else recent_matches);
          recent_matches = (if recent_matches = []
             then filter (\<lambda>(t, r). py_lower (py_strip (astype_str (home_team r))) = team_name_lower
                            \<or> py_lower (py_strip (astype_str (away_team r))) = team_name_lower) df
             else recent_matches);
          recent_matches = (if recent_matches = []
             then filter (\<lambda>(t, r). sublist team_name_lower (py_lower (astype_str (home_team r)))
                            \<or> sublist team_name_lower (py_lower (astype_str (away_team r)))) df
             else recent_matches)
      in if recent_matches = []
         then (let all_teams = sort (remdups (map (\<lambda>(t, r). astype_str (home_team r)) df
                                              @ map (\<lambda>(t, r). astype_str (away_team r)) df));
                   similar_teams = filter (\<lambda>t. sublist team_name_lower (py_lower t)
                                              \<or> sublist (py_lower t) team_name_lower) all_teams
               in case similar_teams of
                    [] \<Rightarrow> recent_matches
                  | similar # _ \<Rightarrow>
                     (let recent_matches = filter (\<lambda>(t, r). astype_str (home_team r) = similar
                                                     \<or> astype_str (away_team r) = similar) df
                      in if recent_matches = []
                         then filter (\<lambda>(t, r).
                                 py_lower (py_strip (astype_str (home_team r))) = py_lower similar
                                 \<or> py_lower (py_strip (astype_str (away_team r))) = py_lower similar) df
                         else recent_matches))
         else recent_matches)"

text \<open>
  \<^verbatim>\<open>get_team_recent_form_original\<close>. Its \<^verbatim>\<open>except\<close> clause returns \<^verbatim>\<open>"DDDDD"\<close>; on
  the tables of this model no operation of the body raises.
\<close>

definition get_team_recent_form_original ::
    "(string \<Rightarrow> int) \<Rightarrow> string \<Rightarrow> table \<Rightarrow> string \<Rightarrow> string" where
  "get_team_recent_form_original md5 team_name data version =
     (let version = (case attrs_version data of
                       Some v \<Rightarrow> v
                     | None \<Rightarrow> if has_v2_columns data then ''v2''
                               else if has_v1_columns data then ''v1'' else version);
          team_name_clean = py_strip team_name
      in if df_empty data \<and> length (columns data) = 0 then hash_form (md5 (py_strip team_name))
         else
          (let (home_col, away_col, result_col) = get_column_names version;
               required_cols = [home_col, away_col, result_col, ''Date''];
               missing_cols = filter (\<lambda>col. col \<notin> set (columns data)) required_cols
           in if missing_cols \<noteq> [] then hash_form (md5 (py_strip team_name))
              else
               (let df = dropna_date to_datetime_dayfirst_retry (rows data);
                    recent_matches = select_recent_matches team_name_clean df
                in if recent_matches = [] then hash_form (md5 team_name_clean)
                   else
                    (let recent_matches = most_recent_5 recent_matches;
                         form = map (\<lambda>r. form_letter (result r)
                                       (astype_str (home_team r) = team_name_clean))
                                  recent_matches;
                         form = form @ replicate (5 - length form) CHR ''D''
                     in take 5 form))))"

section \<open>Team strength (\<^verbatim>\<open>ProfessionalFootballAnalytics.calculate_team_strength\<close>)\<close>

definition form_points :: "char \<Rightarrow> real" where
  "form_points c = (if c = CHR ''W'' then 3 else if c = CHR ''D'' then 1
                    else if c = CHR ''L'' then 0 else 1)"

definition weights :: "real list" where
  "weights = [1.0, 1.2, 1.4, 1.6, 1.8]"

text \<open>
  The loop \<^verbatim>\<open>for i, result in enumerate(form_string[:5])\<close> with its two accumulators,
  and the quotient that follows it: the form strength before the home or away adjustment.
\<close>

definition weighted_points_loop :: "string \<Rightarrow> real \<times> real" where
  "weighted_points_loop form_string =
     foldl (\<lambda>(weighted_points, max_weighted_points) (i, res).
              (let points = form_points res;
                   weight = (if i < length weights then weights ! i else 1.0)
               in (weighted_points + points * weight, max_weighted_points + 3 * weight)))
       (0, 0) (enumerate 0 (take 5 form_string))"

definition weighted_form_strength :: "string \<Rightarrow> real" where
  "weighted_form_strength form_string =
     (let (weighted_points, max_weighted_points) = weighted_points_loop form_string
      in if max_weighted_points > 0 then weighted_points / max_weighted_points else 0.5)"

text \<open>
  \<open>data1\<close> is what \<^verbatim>\<open>load_football_data()\<close> returns (dataset 1). The form of the
  original calculator always has five characters, so the hash-based form is used when
  the data is empty; the final fallback of the source (a form shorter than five
  characters) cannot occur after the hash-based form has been substituted.
\<close>

definition calculate_team_strength ::
    "(string \<Rightarrow> int) \<Rightarrow> table \<Rightarrow> string \<Rightarrow> string \<Rightarrow> real" where
  "calculate_team_strength md5 data1 team_name home_away =
     (let form_string = (if \<not> df_empty data1
                         then get_team_recent_form_original md5 team_name data1 ''v1'' else []);
          form_string = (if form_string = [] \<or> length form_string < 5
                         then hash_form (md5 (py_strip team_name)) else form_string)
      in if form_string \<noteq> [] \<and> length form_string \<ge> 5
         then (let form_strength = weighted_form_strength form_string;
                   form_strength = (if home_away = ''home'' then form_strength + 0.08
                                    else if form_strength > 0.6 then form_strength - 0.02
                                    else form_strength - 0.05)
               in min 1.0 (max 0.0 form_strength))
         else (if home_away = ''away'' then 0.5 else 0.6))"

section \<open>Historical probabilities (predictor/analytics.py)\<close>

text \<open>
  \<^verbatim>\<open>get_enhanced_features\<close>: the strengths come from \<^verbatim>\<open>calculate_team_strength\<close>, which
  catches its own exceptions, so the hash-based \<^verbatim>\<open>except\<close> clause of
  \<^verbatim>\<open>get_enhanced_features\<close> is not taken.
\<close>

record enhanced_features =
  home_strength :: real
  away_strength :: real
  combined_strength :: real
  strength_difference :: real

definition get_enhanced_features ::
    "(string \<Rightarrow> int) \<Rightarrow> table \<Rightarrow> string \<Rightarrow> string \<Rightarrow> enhanced_features" where
  "get_enhanced_features md5 data1 home away =
     (let hs = calculate_team_strength md5 data1 home ''home'';
          as = calculate_team_strength md5 data1 away ''away''
      in \<lparr>home_strength = hs, away_strength = as,
          combined_strength = (hs + as) / 2,
          strength_difference = \<bar>hs - as\<bar>\<rparr>)"

text \<open>
  The decision table from the strength difference to \<open>(prob_home, prob_draw, prob_away)\<close>
  that the function uses when the data is unusable (and that \<^verbatim>\<open>advanced_predict_match\<close>
  repeats), and the coarser one it uses when the table has no head-to-head row.
\<close>

definition strength_probabilities :: "real \<Rightarrow> real \<times> real \<times> real" where
  "strength_probabilities strength_diff =
     (if \<bar>strength_diff\<bar> < 0.03 then (0.33, 0.34, 0.33)
      else if \<bar>strength_diff\<bar> < 0.08 then
        (let (prob_home, prob_draw, prob_away) =
               (if strength_diff > 0
                then (0.38 + strength_diff * 2, 0.30, 0.32 - strength_diff * 1.5)
                else (0.32 - \<bar>strength_diff\<bar> * 1.5, 0.30, 0.38 + \<bar>strength_diff\<bar> * 2));
             total = prob_home + prob_draw + prob_away
         in (prob_home / total, prob_draw / total, prob_away / total))
      else if strength_diff > 0.20 then (0.58, 0.24, 0.18)
      else if strength_diff > 0.12 then (0.48, 0.30, 0.22)
      else if strength_diff > 0.08 then (0.42, 0.32, 0.26)
      else if strength_diff < - 0.20 then (0.18, 0.24, 0.58)
      else if strength_diff < - 0.12 then (0.22, 0.30, 0.48)
      else if strength_diff < - 0.08 then (0.26, 0.32, 0.42)
      else (0.35, 0.33, 0.32))"

definition no_h2h_probabilities :: "real \<Rightarrow> real \<times> real \<times> real" where
  "no_h2h_probabilities strength_diff =
     (if \<bar>strength_diff\<bar> < 0.05 then (0.35, 0.35, 0.30)
      else if strength_diff > 0.20 then (0.55, 0.25, 0.20)
      else if strength_diff > 0.10 then (0.45, 0.30, 0.25)
      else if strength_diff < - 0.20 then (0.20, 0.25, 0.55)
      else if strength_diff < - 0.10 then (0.25, 0.30, 0.45)
      else if strength_diff > 0 then (0.40, 0.32, 0.28)
      else (0.28, 0.32, 0.40))"

definition percent_triple :: "real \<times> real \<times> real \<Rightarrow> probs" where
  "percent_triple p = (case p of (prob_home, prob_draw, prob_away) \<Rightarrow>
     triple (prob_home * 100) (prob_draw * 100) (prob_away * 100))"

text \<open>
  The two-step selection of the fixtures of \<open>h\<close> at home against \<open>a\<close>:
  \<^verbatim>\<open>data[mask1]\<close>, then \<^verbatim>\<open>h2h[mask2]\<close> when the first selection is not empty.
\<close>

definition select_fixtures :: "string \<Rightarrow> string \<Rightarrow> row list \<Rightarrow> row list" where
  "select_fixtures h a rs =
     (let h2h = filter (\<lambda>r. py_strip (astype_str (home_team r)) = h) rs
      in if length h2h > 0 then filter (\<lambda>r. py_strip (astype_str (away_team r)) = a) h2h
         else [])"

text \<open>\<^verbatim>\<open>(frame[result_col] == c).sum()\<close>.\<close>

definition count_result :: "cell \<Rightarrow> row list \<Rightarrow> nat" where
  "count_result c rs = length (filter (\<lambda>r. result r = c) rs)"

text \<open>
  \<^verbatim>\<open>isinstance(sample_value, (int, float, np.integer, np.floating))\<close>: a missing value is
  the float NaN.
\<close>

definition is_numeric :: "cell \<Rightarrow> bool" where
  "is_numeric c = (case c of Str s \<Rightarrow> False | Num x \<Rightarrow> True | Missing \<Rightarrow> True)"

text \<open>
  \<^verbatim>\<open>calculate_probabilities_original\<close>; \<open>md5\<close> and \<open>data1\<close> (dataset 1) are what the
  strength fallback reads. On the tables of this model the body raises nothing, so the
  \<^verbatim>\<open>except\<close> clause is not taken.
\<close>

definition calculate_probabilities_original ::
    "(string \<Rightarrow> int) \<Rightarrow> table \<Rightarrow> string \<Rightarrow> string \<Rightarrow> table \<Rightarrow> string \<Rightarrow> probs" where
  "calculate_probabilities_original md5 data1 home away data version =
     (let enhanced_features = get_enhanced_features md5 data1 home away;
          strength_diff = home_strength enhanced_features - away_strength enhanced_features
      in if df_empty data \<or> length (columns data) = 0
         then percent_triple (strength_probabilities strength_diff)
         else
          (let (home_col, away_col, result_col) = get_column_names version
           in if \<not> (home_col \<in> set (columns data) \<and> away_col \<in> set (columns data)
                      \<and> result_col \<in> set (columns data))
              then percent_triple (strength_probabilities strength_diff)
              else
               (let home_str = py_strip home;
                    away_str = py_strip away;
                    h2h_home = select_fixtures home_str away_str (rows data);
                    h2h_away = select_fixtures away_str home_str (rows data);
                    h2h = h2h_home @ h2h_away
                in if h2h = [] then percent_triple (no_h2h_probabilities strength_diff)
                   else
                    (let is_numeric = is_numeric (result (hd h2h));
                         (home_wins, draws, away_wins) =
                            (if length h2h_home > 0
                             then (if is_numeric
                                   then (count_result (Num 2) h2h_home,
                                         count_result (Num 1) h2h_home,
                                         count_result (Num 0) h2h_home)
                                   else (count_result (Str ''H'') h2h_home,
                                         count_result (Str ''D'') h2h_home,
                                         count_result (Str ''A'') h2h_home))
                             else (0, 0, 0));
                         (home_wins, draws, away_wins) =
                            (if length h2h_away > 0
                             then (if is_numeric
                                   then (home_wins + count_result (Num 0) h2h_away,
                                         draws + count_result (Num 1) h2h_away,
                                         away_wins + count_result (Num 2) h2h_away)
                                   else (home_wins + count_result (Str ''A'') h2h_away,
                                         draws + count_result (Str ''D'') h2h_away,
                                         away_wins + count_result (Str ''H'') h2h_away))
                             else (home_wins, draws, away_wins));
                         total = length h2h
                     in triple
                          (if total > 0 then real home_wins / real total * 100 else 33.3)
                          (if total > 0 then real draws / real total * 100 else 33.3)
                          (if total > 0 then real away_wins / real total * 100 else 33.3)))))"

text \<open>
  \<^verbatim>\<open>calculate_probabilities_model2\<close>: \<open>None\<close> when a column is missing (the
  \<^verbatim>\<open>KeyError\<close> is caught) or when there is no head-to-head row. Cells are compared with
  the team names as they are, and only the letters \<open>H\<close>, \<open>D\<close>, \<open>A\<close> are counted.
\<close>

definition calculate_probabilities_model2 ::
    "string \<Rightarrow> string \<Rightarrow> table \<Rightarrow> string \<Rightarrow> probs option" where
  "calculate_probabilities_model2 home away data version =
     (let actual_version = (if has_v2_columns data then ''v2''
                            else if has_v1_columns data then ''v1'' else version);
          (home_col, away_col, result_col) = get_column_names actual_version
      in if \<not> (home_col \<in> set (columns data) \<and> away_col \<in> set (columns data)) then None
         else
          (let h2h_dir1 = filter (\<lambda>r. home_team r = Some home \<and> away_team r = Some away)
                            (rows data);
               h2h_dir2 = filter (\<lambda>r. home_team r = Some away \<and> away_team r = Some home)
                            (rows data)
           in if h2h_dir1 = [] \<and> h2h_dir2 = [] then None
              else if \<not> result_col \<in> set (columns data) then None
              else
               (let home_wins = count_result (Str ''H'') h2h_dir1 + count_result (Str ''A'') h2h_dir2;
                    draws = count_result (Str ''D'') h2h_dir1 + count_result (Str ''D'') h2h_dir2;
                    away_wins = count_result (Str ''A'') h2h_dir1 + count_result (Str ''H'') h2h_dir2;
                    total = length h2h_dir1 + length h2h_dir2
                in Some (triple (real home_wins / real total * 100)
                                (real draws / real total * 100)
                                (real away_wins / real total * 100)))))"

section \<open>Mirrored tables\<close>

text \<open>
  The mirror of a table, in the words of the specification: in every row the home and
  away columns are swapped and the result is inverted (\<open>H\<close> and \<open>A\<close> exchanged, in the
  numeric coding 2 and 0; \<open>D\<close> and every other value unchanged). The mirror of a
  probability triple exchanges its Home and Away percentages.
\<close>

definition invert_result :: "cell \<Rightarrow> cell" where
  "invert_result c =
     (if c = Str ''H'' then Str ''A'' else if c = Str ''A'' then Str ''H''
      else if c = Num 2 then Num 0 else if c = Num 0 then Num 2 else c)"

definition mirror_row :: "row \<Rightarrow> row" where
  "mirror_row r = r\<lparr>home_team := away_team r, away_team := home_team r,
                     result := invert_result (result r)\<rparr>"

definition mirror_table :: "table \<Rightarrow> table" where
  "mirror_table data = data\<lparr>rows := map mirror_row (rows data)\<rparr>"

definition prob_of :: "probs \<Rightarrow> string \<Rightarrow> real" where
  "prob_of ps k = (case map_of ps k of Some v \<Rightarrow> v | None \<Rightarrow> 0)"

definition swap_home_away :: "probs \<Rightarrow> probs" where
  "swap_home_away ps =
     triple (prob_of ps ''Away Team Win'') (prob_of ps ''Draw'') (prob_of ps ''Home Team Win'')"

text \<open>A row is a fixture of \<open>h\<close> at home against \<open>a\<close>, on the trimmed names.\<close>

definition is_fixture :: "string \<Rightarrow> string \<Rightarrow> row \<Rightarrow> bool" where
  "is_fixture h a r =
     (py_strip (astype_str (home_team r)) = py_strip h
      \<and> py_strip (astype_str (away_team r)) = py_strip a)"

text \<open>The table has the three columns of the schema named by \<open>version\<close>.\<close>

definition has_columns :: "table \<Rightarrow> string \<Rightarrow> bool" where
  "has_columns data version =
     (case get_column_names version of (home_col, away_col, result_col) \<Rightarrow>
        home_col \<in> set (columns data) \<and> away_col \<in> set (columns data)
        \<and> result_col \<in> set (columns data))"

section \<open>Classifier objects\<close>

text \<open>
  The exceptions the engine distinguishes; \<open>OtherError\<close> is any class that the
  \<^verbatim>\<open>except (AttributeError, IndexError, ValueError)\<close> clause does not catch. A call that
  may raise returns a sum, \<open>Inl\<close> the exception.
\<close>

datatype exc = AttributeError | IndexError | ValueError | TypeError | OtherError

definition upper_char :: "char \<Rightarrow> char" where
  "upper_char c = (let n = (of_char c :: nat) in if 97 \<le> n \<and> n \<le> 122 then char_of (n - 32) else c)"

definition py_upper :: "string \<Rightarrow> string" where
  "py_upper s = map upper_char s"

function nat_digits :: "nat \<Rightarrow> string" where
  "nat_digits n = (if n < 10 then [char_of (48 + n)]
                   else nat_digits (n div 10) @ [char_of (48 + n mod 10)])"
  by pat_completeness auto
termination
  by (relation "measure id") auto

definition py_str_int :: "int \<Rightarrow> string" where
  "py_str_int i = (if i < 0 then CHR ''-'' # nat_digits (nat (- i)) else nat_digits (nat i))"

text \<open>
  \<^verbatim>\<open>str(v).upper()\<close> on a class label. The engine only asks whether this string is in a
  list of the words \<open>0, 1, 2, 3, A, D, H, AWAY, DRAW, HOME, \<dots>\<close>; the text of a float has
  a point, an exponent, \<open>inf\<close> or \<open>nan\<close> and is none of them, so a float is given no string
  (\<open>None\<close>) and is in no list.
\<close>

definition str_upper :: "pyval \<Rightarrow> string option" where
  "str_upper v = (case v of PyInt i \<Rightarrow> Some (py_str_int i) | PyFloat f \<Rightarrow> None
                  | PyStr s \<Rightarrow> Some (py_upper s) | PyNone \<Rightarrow> Some ''NONE'')"

definition str_upper_in :: "pyval \<Rightarrow> string list \<Rightarrow> bool" where
  "str_upper_in v xs = (case str_upper v of None \<Rightarrow> False | Some s \<Rightarrow> s \<in> set xs)"

text \<open>
  \<^verbatim>\<open>int(v)\<close>: a float is truncated towards zero (NaN raises \<^verbatim>\<open>ValueError\<close>, an infinity
  \<^verbatim>\<open>OverflowError\<close>); a string is trimmed and read as an optional sign and decimal digits
  (\<^verbatim>\<open>ValueError\<close> otherwise); \<^verbatim>\<open>None\<close> raises \<^verbatim>\<open>TypeError\<close>.
\<close>

definition int_of_string :: "string \<Rightarrow> exc + int" where
  "int_of_string s =
     (let t = py_strip s;
          (negative, ds) = (case t of [] \<Rightarrow> (False, [])
                            | c # cs \<Rightarrow> if c = CHR ''-'' then (True, cs)
                                       else if c = CHR ''+'' then (False, cs) else (False, t))
      in if ds \<noteq> [] \<and> list_all is_digit ds
         then Inr (if negative then - int (digits_val ds) else int (digits_val ds))
         else Inl ValueError)"

definition py_int :: "pyval \<Rightarrow> exc + int" where
  "py_int v = (case v of
       PyInt i \<Rightarrow> Inr i
     | PyFloat f \<Rightarrow> (case f of Finite x \<Rightarrow> Inr (if x \<ge> 0 then \<lfloor>x\<rfloor> else \<lceil>x\<rceil>)
                      | PosInf \<Rightarrow> Inl OtherError | NegInf \<Rightarrow> Inl OtherError
                      | NaN \<Rightarrow> Inl ValueError)
     | PyStr s \<Rightarrow> int_of_string s
     | PyNone \<Rightarrow> Inl TypeError)"

text \<open>\<^verbatim>\<open>a == b\<close> on labels: an int equals the float of the same value.\<close>

fun py_eq :: "pyval \<Rightarrow> pyval \<Rightarrow> bool" where
  "py_eq (PyInt i) (PyInt j) = (i = j)"
| "py_eq (PyInt i) (PyFloat (Finite x)) = (real_of_int i = x)"
| "py_eq (PyFloat (Finite x)) (PyInt j) = (x = real_of_int j)"
| "py_eq (PyFloat (Finite x)) (PyFloat (Finite y)) = (x = y)"
| "py_eq (PyFloat PosInf) (PyFloat PosInf) = True"
| "py_eq (PyFloat NegInf) (PyFloat NegInf) = True"
| "py_eq (PyStr s) (PyStr t) = (s = t)"
| "py_eq PyNone PyNone = True"
| "py_eq a b = False"

text \<open>A dictionary keyed by labels, in insertion order: \<^verbatim>\<open>d[k] = v\<close> and \<^verbatim>\<open>k in d\<close>.\<close>

fun dict_set :: "(pyval \<times> 'v) list \<Rightarrow> pyval \<Rightarrow> 'v \<Rightarrow> (pyval \<times> 'v) list" where
  "dict_set [] k v = [(k, v)]"
| "dict_set ((k', v') # d) k v =
     (if py_eq k' k then (k', v) # d else (k', v') # dict_set d k v)"

fun dict_get :: "(pyval \<times> 'v) list \<Rightarrow> pyval \<Rightarrow> 'v option" where
  "dict_get [] k = None"
| "dict_get ((k', v') # d) k = (if py_eq k' k then Some v' else dict_get d k)"

definition dict_zip :: "pyval list \<Rightarrow> 'v list \<Rightarrow> (pyval \<times> 'v) list" where
  "dict_zip ks vs = foldl (\<lambda>d (k, v). dict_set d k v) [] (zip ks vs)"

text \<open>\<^verbatim>\<open>proba.argmax()\<close>: the index of the first maximum; an empty array raises.\<close>

definition argmax :: "real list \<Rightarrow> nat option" where
  "argmax xs = (case py_max xs of None \<Rightarrow> None
                | Some m \<Rightarrow> Some (length (takeWhile (\<lambda>x. x \<noteq> m) xs)))"

text \<open>
  A trained model, as far as the engine looks at it: \<^verbatim>\<open>predict(X)[0]\<close>,
  \<^verbatim>\<open>predict_proba(X)[0]\<close> when the attribute exists, \<^verbatim>\<open>classes_\<close> when it exists, and
  whether the object is a \<^verbatim>\<open>RandomForestRegressor\<close>. \<open>'f\<close> is the type of feature
  vectors.
\<close>

record 'f py_model =
  predict :: "'f \<Rightarrow> exc + pyval"
  predict_proba :: "('f \<Rightarrow> exc + real list) option"
  classes :: "pyval list option"
  is_random_forest_regressor :: bool

text \<open>
  \<^verbatim>\<open>predict_with_confidence\<close>: \<open>None\<close> is the triple \<^verbatim>\<open>(None, None, None)\<close> of its
  \<^verbatim>\<open>except\<close> clause.
\<close>

definition predict_with_confidence ::
    "'f py_model \<Rightarrow> 'f \<Rightarrow> (pyval \<times> real \<times> (pyval \<times> real) list) option" where
  "predict_with_confidence model input_df =
     (case predict_proba model of
        None \<Rightarrow> None
      | Some pp \<Rightarrow>
         (case pp input_df of
            Inl e \<Rightarrow> None
          | Inr proba \<Rightarrow>
             (case argmax proba of
                None \<Rightarrow> None
              | Some pred_idx \<Rightarrow>
                 (case classes model of
                    None \<Rightarrow> None
                  | Some labels \<Rightarrow>
                     if pred_idx < length labels
                     then Some (labels ! pred_idx, proba ! pred_idx, dict_zip labels proba)
                     else None))))"

section \<open>Probability assembly (\<^verbatim>\<open>advanced_predict_match\<close>, Steps D and E)\<close>

text \<open>
  The probability dictionary \<^verbatim>\<open>prob_dict\<close> has the keys \<open>0\<close> (Away), \<open>1\<close> (Draw) and \<open>2\<close>
  (Home), in insertion order; \<^verbatim>\<open>prob_dict[k] = v\<close> is \<^const>\<open>AList.update\<close>.
\<close>

type_synonym prob_dict = "(int \<times> real) list"

definition default_probabilities :: prob_dict where
  "default_probabilities = [(0, 0.33), (1, 0.34), (2, 0.33)]"

definition probs_get :: "probs \<Rightarrow> string \<Rightarrow> real \<Rightarrow> real" where
  "probs_get ps k d = (case map_of ps k of Some v \<Rightarrow> v | None \<Rightarrow> d)"

definition prob_get :: "prob_dict \<Rightarrow> int \<Rightarrow> real \<Rightarrow> real" where
  "prob_get pd k d = (case map_of pd k of Some v \<Rightarrow> v | None \<Rightarrow> d)"

text \<open>The body of the loop that builds \<^verbatim>\<open>class_to_our_format\<close>, for the class at index \<open>i\<close>.\<close>

definition class_target :: "nat \<Rightarrow> nat \<Rightarrow> pyval \<Rightarrow> int option" where
  "class_target n i class_val =
     (if str_upper_in class_val [''0'', ''A'', ''AWAY'', ''AWAY TEAM WIN''] then
        (if py_eq class_val (PyInt 0) then Some 0
         else if str_upper_in class_val [''A'', ''AWAY'', ''AWAY TEAM WIN''] then Some 0
         else None)
      else if str_upper_in class_val [''1'', ''D'', ''DRAW''] then
        (if py_eq class_val (PyInt 1) then Some 1
         else if str_upper_in class_val [''D'', ''DRAW''] then Some 1
         else None)
      else if str_upper_in class_val [''2'', ''H'', ''HOME'', ''HOME TEAM WIN''] then
        (if py_eq class_val (PyInt 2) then Some 2
         else if str_upper_in class_val [''H'', ''HOME'', ''HOME TEAM WIN''] then Some 2
         else None)
      else if str_upper_in class_val [''3''] then Some 2
      else if n = 3 then
        (if i = 0 then Some 0 else if i = 1 then Some 1 else if i = 2 then Some 2 else None)
      else None)"

text \<open>
  The outcome that a class label names: the label table above without the positional
  fallback, with the outcome strings of Step 1 of \<^verbatim>\<open>determine_final_prediction\<close>.
\<close>

definition named_outcome :: "pyval \<Rightarrow> string option" where
  "named_outcome label =
     (case class_target 0 0 label of
        None \<Rightarrow> None
      | Some k \<Rightarrow> model_outcome_of (Finite (real_of_int k)))"

definition class_to_our_format :: "pyval list \<Rightarrow> (pyval \<times> int) list" where
  "class_to_our_format cs =
     foldl (\<lambda>d (i, class_val). case class_target (length cs) i class_val of
                                   None \<Rightarrow> d | Some t \<Rightarrow> dict_set d class_val t)
       [] (enumerate 0 cs)"

text \<open>
  The two loops over \<^verbatim>\<open>full_conf.items()\<close>. An exception of \<^verbatim>\<open>int(key)\<close> other than
  \<^verbatim>\<open>ValueError\<close> and \<^verbatim>\<open>TypeError\<close> leaves the loop (\<open>None\<close>) and ends in the outer
  \<^verbatim>\<open>except\<close> clause of \<^verbatim>\<open>advanced_predict_match\<close>.
\<close>

definition direct_mapping_step :: "prob_dict option \<Rightarrow> pyval \<times> real \<Rightarrow> prob_dict option" where
  "direct_mapping_step acc kv =
     (case acc of None \<Rightarrow> None
      | Some pd \<Rightarrow>
         (case kv of (key, v) \<Rightarrow>
            (case py_int key of
               Inr key_int \<Rightarrow> if key_int \<in> {0, 1, 2} then Some (AList.update key_int v pd)
                              else Some pd
             | Inl e \<Rightarrow> if e = ValueError \<or> e = TypeError then Some pd else None)))"

definition class_mapping_step ::
    "(pyval \<times> int) list \<Rightarrow> prob_dict option \<Rightarrow> pyval \<times> real \<Rightarrow> prob_dict option" where
  "class_mapping_step ctf acc kv =
     (case acc of None \<Rightarrow> None
      | Some pd \<Rightarrow>
         (case kv of (key, v) \<Rightarrow>
            (case dict_get ctf key of
               Some t \<Rightarrow> Some (AList.update t v pd)
             | None \<Rightarrow>
                (case py_int key of
                   Inr key_int \<Rightarrow>
                     if key_int = 0 then Some (AList.update 0 v pd)
                     else if key_int = 1 then Some (AList.update 1 v pd)
                     else if key_int = 2 then Some (AList.update 2 v pd)
                     else Some pd
                 | Inl e \<Rightarrow>
                     if e = ValueError \<or> e = TypeError then
                       (if str_upper_in key [''0'', ''A'', ''AWAY'', ''AWAY TEAM WIN'']
                          then Some (AList.update 0 v pd)
                        else if str_upper_in key [''1'', ''D'', ''DRAW'']
                          then Some (AList.update 1 v pd)
                        else if str_upper_in key [''2'', ''H'', ''HOME'', ''HOME TEAM WIN'']
                          then Some (AList.update 2 v pd)
                        else Some pd)
                     else None))))"

definition name_mapping_step :: "prob_dict \<Rightarrow> pyval \<times> real \<Rightarrow> prob_dict" where
  "name_mapping_step pd kv =
     (case kv of (key, v) \<Rightarrow>
        if str_upper_in key [''0'', ''A'', ''AWAY'', ''AWAY TEAM WIN''] then AList.update 0 v pd
        else if str_upper_in key [''1'', ''D'', ''DRAW''] then AList.update 1 v pd
        else if str_upper_in key [''2'', ''H'', ''HOME'', ''HOME TEAM WIN'', ''3'']
          then AList.update 2 v pd
        else pd)"

text \<open>
  The conversion of the model's probabilities to \<^verbatim>\<open>prob_dict\<close>, for a classifier:
  \<open>cls\<close> is \<^verbatim>\<open>model.classes_\<close> when the attribute exists, \<open>full_conf\<close> the dictionary of
  \<^verbatim>\<open>predict_with_confidence\<close> (\<open>None\<close> when it failed). With the attribute and no
  dictionary, \<^verbatim>\<open>full_conf.items()\<close> raises.
\<close>

definition map_model_probabilities ::
    "pyval list option \<Rightarrow> (pyval \<times> real) list option \<Rightarrow> prob_dict option" where
  "map_model_probabilities cls full_conf =
     (case cls of
        Some cs \<Rightarrow>
          (case full_conf of
             None \<Rightarrow> None
           | Some fc \<Rightarrow>
               if list_all2 py_eq cs [PyInt 0, PyInt 1, PyInt 2]
               then foldl direct_mapping_step (Some []) fc
               else foldl (class_mapping_step (class_to_our_format cs)) (Some []) fc)
      | None \<Rightarrow>
          (case full_conf of
             None \<Rightarrow> Some []
           | Some fc \<Rightarrow> Some (foldl name_mapping_step [] fc)))"

text \<open>\<^verbatim>\<open>if not prob_dict\<close>: the historical percentages, or the default split.\<close>

definition historical_fallback :: "probs \<Rightarrow> prob_dict \<Rightarrow> prob_dict" where
  "historical_fallback ps pd =
     (if pd = [] then
        (if ps \<noteq> [] then [(0, probs_get ps ''Away Team Win'' 33.0 / 100),
                            (1, probs_get ps ''Draw'' 33.0 / 100),
                            (2, probs_get ps ''Home Team Win'' 33.0 / 100)]
         else default_probabilities)
      else pd)"

definition total_of :: "prob_dict \<Rightarrow> real" where
  "total_of pd = sum_list (map snd pd)"

definition divide_by :: "real \<Rightarrow> prob_dict \<Rightarrow> prob_dict" where
  "divide_by t pd = map (\<lambda>(k, v). (k, v / t)) pd"

text \<open>The loop \<^verbatim>\<open>if prob_dict[key] > 1.0: prob_dict[key] = prob_dict[key] / 100.0\<close>.\<close>

definition percent_to_decimal :: "prob_dict \<Rightarrow> prob_dict" where
  "percent_to_decimal pd = map (\<lambda>(k, v). (k, if v > 1.0 then v / 100.0 else v)) pd"

text \<open>
  Step D, in the order of the source: normalise by the sum, then divide the values above
  \<open>1.0\<close> by 100, then normalise again when the sum is off by more than \<open>0.01\<close>, then reset
  to the default when the sum is off by more than \<open>0.05\<close>.
\<close>

definition normalize_probabilities :: "prob_dict \<Rightarrow> prob_dict" where
  "normalize_probabilities prob_dict =
     (let total = total_of prob_dict;
          prob_dict = (if total > 0 then divide_by total prob_dict else default_probabilities);
          prob_dict = percent_to_decimal prob_dict;
          total = total_of prob_dict;
          prob_dict = (if total > 0 \<and> \<bar>total - 1.0\<bar> > 0.01 then divide_by total prob_dict
                       else prob_dict);
          final_total = total_of prob_dict
      in if \<bar>final_total - 1.0\<bar> > 0.05 then default_probabilities else prob_dict)"

text \<open>Step E: the form-derived triple \<open>(home, draw, away)\<close>, when there is one.\<close>

definition form_probabilities :: "real \<Rightarrow> (real \<times> real \<times> real) option" where
  "form_probabilities form_diff =
     (if \<bar>form_diff\<bar> > 0.1 then
        (if form_diff < - 0.12 then Some (0.22, 0.30, 0.48)
         else if form_diff < - 0.08 then Some (0.26, 0.32, 0.42)
         else if form_diff > 0.12 then Some (0.48, 0.30, 0.22)
         else if form_diff > 0.08 then Some (0.42, 0.32, 0.26)
         else None)
      else None)"

definition form_based_correction :: "real \<Rightarrow> prob_dict \<Rightarrow> prob_dict" where
  "form_based_correction form_diff prob_dict =
     (case form_probabilities form_diff of
        None \<Rightarrow> prob_dict
      | Some (form_home_prob, form_draw_prob, form_away_prob) \<Rightarrow>
         (let model_weight = 0.6;
              form_weight = 0.4;
              prob_dict = AList.update 0 (prob_get prob_dict 0 0.33 * model_weight
                                            + form_away_prob * form_weight) prob_dict;
              prob_dict = AList.update 1 (prob_get prob_dict 1 0.33 * model_weight
                                            + form_draw_prob * form_weight) prob_dict;
              prob_dict = AList.update 2 (prob_get prob_dict 2 0.33 * model_weight
                                            + form_home_prob * form_weight) prob_dict;
              total = total_of prob_dict
          in if total > 0 then divide_by total prob_dict else prob_dict))"

text \<open>
  \<^verbatim>\<open>max(prob_dict, key=prob_dict.get)\<close>: the first key with the highest value; Python
  raises on an empty dictionary.
\<close>

definition max_key :: "prob_dict \<Rightarrow> int option" where
  "max_key pd = (case py_max (map snd pd) of
       None \<Rightarrow> None
     | Some m \<Rightarrow> (case filter (\<lambda>(k, v). v = m) pd of [] \<Rightarrow> None | (k, v) # rest \<Rightarrow> Some k))"

fun py_min :: "real list \<Rightarrow> real option" where
  "py_min [] = None"
| "py_min (x # xs) = Some (foldl min x xs)"

text \<open>\<^verbatim>\<open>{0: "Away", 1: "Draw", 2: "Home"}.get(prediction, "Draw")\<close>.\<close>

definition outcome_of :: "int \<Rightarrow> string" where
  "outcome_of prediction =
     (if prediction = 0 then ''Away'' else if prediction = 2 then ''Home'' else ''Draw'')"

text \<open>The final validation before the result is returned (tolerance \<open>0.05\<close>).\<close>

definition final_validation :: "prob_dict \<Rightarrow> prob_dict" where
  "final_validation prob_dict =
     (let prob_dict = percent_to_decimal prob_dict;
          prob_sum = total_of prob_dict
      in if \<bar>prob_sum - 1.0\<bar> > 0.05
         then (if prob_sum > 0 then divide_by prob_sum prob_dict else default_probabilities)
         else prob_dict)"

section \<open>\<^verbatim>\<open>advanced_predict_match\<close> (predictor/analytics.py)\<close>

text \<open>
  The result dictionary, with the fields the claims are about. Left out are
  \<^verbatim>\<open>h2h_probabilities\<close> (random numbers of \<^verbatim>\<open>get_head_to_head_stats\<close>),
  \<^verbatim>\<open>debug_timings\<close>, and \<^verbatim>\<open>model1_prediction\<close>, \<^verbatim>\<open>model1_probs\<close>, \<^verbatim>\<open>model2_prediction\<close>,
  \<^verbatim>\<open>model2_probs\<close>, which repeat \<^verbatim>\<open>prediction_number\<close> and \<^verbatim>\<open>probabilities\<close>. A key that
  a return statement does not set is \<open>None\<close>. The function returns \<^verbatim>\<open>None\<close> on an
  exception (its outer \<^verbatim>\<open>except\<close> clause) and for a pair of mixed categories.
\<close>

record prediction_result =
  prediction_number :: int
  outcome :: string
  probabilities :: prob_dict
  confidence :: real
  model_type :: string
  final_prediction :: "string option"
  historical_probs :: "probs option"
  total_goals_prediction :: "pyfloat option"

text \<open>
  What the function reads besides its arguments: the hash function, the builtin
  \<^verbatim>\<open>float\<close> on raw predictions, the two team sets built from \<^verbatim>\<open>LEAGUES_BY_CATEGORY\<close>, the
  loader (dataset id to table), and the numeric part of the two feature builders, whose
  columns the tables of this model do not carry: \<open>e_mean_features\<close> is the mean over the
  selected head-to-head rows aligned to the model (\<^verbatim>\<open>compute_mean_for_teams\<close>),
  \<open>e_form_features\<close> the feature row of \<^verbatim>\<open>preprocess_for_models\<close>; \<open>None\<close> is a caught
  exception.
\<close>

record 'f env =
  e_md5 :: "string \<Rightarrow> int"
  e_float :: "pyval \<Rightarrow> pyfloat option"
  e_main_teams :: "string set"
  e_other_teams :: "string set"
  e_load_football_data :: "nat \<Rightarrow> table"
  e_mean_features :: "'f py_model \<Rightarrow> row list \<Rightarrow> 'f option"
  e_form_features :: "'f py_model \<Rightarrow> string \<Rightarrow> string \<Rightarrow> table \<Rightarrow> 'f option"

text \<open>
  \<^verbatim>\<open>compute_mean_for_teams\<close>: \<open>None\<close> when a team column is missing (the \<^verbatim>\<open>KeyError\<close> is
  caught) or when there is no fixture of \<open>home\<close> at home against \<open>away\<close>.
\<close>

definition compute_mean_for_teams ::
    "'f env \<Rightarrow> string \<Rightarrow> string \<Rightarrow> table \<Rightarrow> 'f py_model \<Rightarrow> string \<Rightarrow> 'f option" where
  "compute_mean_for_teams env home away data model version =
     (let (home_col, away_col, result_col) = get_column_names version
      in if home_col \<in> set (columns data) \<and> away_col \<in> set (columns data)
         then (let h2h = select_fixtures (py_strip home) (py_strip away) (rows data)
               in if h2h = [] then None else e_mean_features env model h2h)
         else None)"

text \<open>
  \<^verbatim>\<open>preprocess_for_models\<close>: \<open>None\<close> on empty data and when the \<^verbatim>\<open>HomeTeam\<close> or
  \<^verbatim>\<open>AwayTeam\<close> column is missing (\<^verbatim>\<open>KeyError\<close>, caught).
\<close>

definition preprocess_for_models ::
    "'f env \<Rightarrow> string \<Rightarrow> string \<Rightarrow> 'f py_model \<Rightarrow> table \<Rightarrow> 'f option" where
  "preprocess_for_models env home away model data =
     (if df_empty data then None
      else if ''HomeTeam'' \<in> set (columns data) \<and> ''AwayTeam'' \<in> set (columns data)
      then e_form_features env model home away data
      else None)"

text \<open>
  The prediction number that goes with each branch of the strength table in the
  empty-data fallback.
\<close>

definition strength_prediction :: "real \<Rightarrow> int" where
  "strength_prediction strength_diff =
     (if \<bar>strength_diff\<bar> < 0.03 then 1
      else if \<bar>strength_diff\<bar> < 0.08 then
        (case strength_probabilities strength_diff of (prob_home, prob_draw, prob_away) \<Rightarrow>
           if prob_home > prob_away \<and> prob_home > prob_draw then 2
           else if prob_away > prob_home \<and> prob_away > prob_draw then 0 else 1)
      else if strength_diff > 0.20 then 2
      else if strength_diff > 0.12 then 2
      else if strength_diff > 0.08 then 2
      else if strength_diff < - 0.20 then 0
      else if strength_diff < - 0.12 then 0
      else if strength_diff < - 0.08 then 0
      else if strength_diff > 0 then 2 else 0)"

definition max3 :: "real \<Rightarrow> real \<Rightarrow> real \<Rightarrow> real" where
  "max3 a b c = max (max a b) c"

text \<open>The return statement of the branch \<^verbatim>\<open>if data_empty\<close>.\<close>

definition form_based_fallback :: "'f env \<Rightarrow> string \<Rightarrow> string \<Rightarrow> prediction_result" where
  "form_based_fallback env home away =
     (let enhanced_features = get_enhanced_features (e_md5 env) (e_load_football_data env 1)
                                home away;
          strength_diff = home_strength enhanced_features - away_strength enhanced_features;
          (prob_home, prob_draw, prob_away) = strength_probabilities strength_diff;
          prediction = strength_prediction strength_diff
      in \<lparr>prediction_number = prediction,
          outcome = outcome_of prediction,
          probabilities = [(0, prob_away), (1, prob_draw), (2, prob_home)],
          confidence = max3 prob_away prob_draw prob_home,
          model_type = (if home \<in> e_other_teams env \<and> away \<in> e_other_teams env
                        then ''Model2 (Form-Based Fallback)''
                        else ''Model1 (Form-Based Fallback)''),
          final_prediction = None,
          historical_probs = Some (triple (prob_home * 100) (prob_draw * 100) (prob_away * 100)),
          total_goals_prediction = None\<rparr>)"

text \<open>The return statement of the branch \<^verbatim>\<open>if model is None\<close> for Model2.\<close>

definition model2_unavailable :: "'f env \<Rightarrow> string \<Rightarrow> string \<Rightarrow> table \<Rightarrow> prediction_result" where
  "model2_unavailable env home away data =
     (let enhanced_features = get_enhanced_features (e_md5 env) (e_load_football_data env 1)
                                home away;
          total_goals = (home_strength enhanced_features + away_strength enhanced_features) * 2.5;
          goal_diff = home_strength enhanced_features - away_strength enhanced_features;
          (prob_home, prob_draw, prob_away, prediction) =
             (if \<bar>goal_diff\<bar> < 0.1 then (0.3, 0.4, 0.3, 1)
              else if goal_diff > 0.15 then (0.5, 0.25, 0.25, 2)
              else (0.25, 0.25, 0.5, 0));
          confidence = max3 prob_away prob_draw prob_home;
          confidence = (if confidence > 1.0 then confidence / 100.0 else confidence)
      in \<lparr>prediction_number = prediction,
          outcome = outcome_of prediction,
          probabilities = [(0, prob_away), (1, prob_draw), (2, prob_home)],
          confidence = confidence,
          model_type = ''Model2 (Fallback)'',
          final_prediction = None,
          historical_probs = calculate_probabilities_model2 home away data ''v2'',
          total_goals_prediction = Some (Finite total_goals)\<rparr>)"

text \<open>The return statement of the branch \<^verbatim>\<open>if input_data is None\<close>.\<close>

definition no_features_fallback :: "string \<Rightarrow> probs \<Rightarrow> prediction_result" where
  "no_features_fallback mtype ps =
     (let mtype = (if mtype = ''Model2'' then ''Model2 (Fallback)'' else mtype);
          prob_home = probs_get ps ''Home Team Win'' 40.0 / 100.0;
          prob_draw = probs_get ps ''Draw'' 30.0 / 100.0;
          prob_away = probs_get ps ''Away Team Win'' 30.0 / 100.0;
          total_prob = prob_home + prob_draw + prob_away;
          (prob_home, prob_draw, prob_away) =
             (if total_prob > 0
              then (prob_home / total_prob, prob_draw / total_prob, prob_away / total_prob)
              else (prob_home, prob_draw, prob_away));
          prediction = (if prob_home > prob_draw \<and> prob_home > prob_away then 2
                        else if prob_away > prob_home \<and> prob_away > prob_draw then 0 else 1)
      in \<lparr>prediction_number = prediction,
          outcome = outcome_of prediction,
          probabilities = [(0, prob_away), (1, prob_draw), (2, prob_home)],
          confidence = max3 prob_away prob_draw prob_home,
          model_type = mtype,
          final_prediction = None,
          historical_probs = Some ps,
          total_goals_prediction = None\<rparr>)"

text \<open>
  Step 1 of the main path: \<^verbatim>\<open>model.predict(input_data)[0]\<close>, and on an exception the
  argmax of \<^verbatim>\<open>predict_proba\<close> or the default 1 (Draw). An exception of
  \<^verbatim>\<open>predict_proba\<close> that the inner clause does not catch ends the function (\<open>None\<close>).
\<close>

definition raw_prediction :: "'f py_model \<Rightarrow> 'f \<Rightarrow> pyval option" where
  "raw_prediction model input_data =
     (case predict model input_data of
        Inr pred \<Rightarrow> Some pred
      | Inl e \<Rightarrow>
         (case predict_proba model of
            None \<Rightarrow> Some (PyInt 1)
          | Some pp \<Rightarrow>
             (case pp input_data of
                Inr proba \<Rightarrow> (case argmax proba of Some i \<Rightarrow> Some (PyInt (int i))
                                | None \<Rightarrow> Some (PyInt 1))
              | Inl e' \<Rightarrow> if e' = AttributeError \<or> e' = IndexError \<or> e' = ValueError
                           then Some (PyInt 1) else None)))"

text \<open>
  The conversion of \<^verbatim>\<open>pred_label\<close> to a prediction number (the block after Step 3)
  assigns \<^verbatim>\<open>prediction\<close> and \<^verbatim>\<open>outcome\<close>, which are assigned again from the probabilities
  before they are read; what remains of it is that \<^verbatim>\<open>int(pred_label)\<close> raises on a float
  label that is NaN or infinite.
\<close>

definition pred_label_raises :: "pyval \<Rightarrow> bool" where
  "pred_label_raises pred_label =
     (case pred_label of PyFloat f \<Rightarrow> (case f of Finite x \<Rightarrow> False | PosInf \<Rightarrow> True
                                        | NegInf \<Rightarrow> True | NaN \<Rightarrow> True)
      | PyInt i \<Rightarrow> False | PyStr s \<Rightarrow> False | PyNone \<Rightarrow> False)"

text \<open>
  The outcome read off the string of \<^verbatim>\<open>determine_final_prediction\<close>; the last branch is
  the fallback to the probability argmax when the string is none of the known ones, the
  invalid-prediction string included.
\<close>

definition outcome_from_final :: "string \<Rightarrow> int \<Rightarrow> string" where
  "outcome_from_final final prediction =
     (if sublist '' or '' final then
        (if sublist ''Home Team Win or Draw'' final then ''Home''
         else if sublist ''Away Team Win or Draw'' final then ''Away''
         else if sublist ''Home Team Win or Away Team Win'' final
           then (if prediction = 0 then ''Away'' else ''Home'')
         else if sublist ''Home Team Win'' final then ''Home''
         else if sublist ''Away Team Win'' final then ''Away''
         else ''Draw'')
      else if sublist ''Home Team Win'' final \<or> py_strip final = ''Home'' then ''Home''
      else if sublist ''Away Team Win'' final \<or> py_strip final = ''Away'' then ''Away''
      else if py_strip final = ''Draw'' then ''Draw''
      else outcome_of prediction)"

text \<open>
  The block that follows the argmax: with historical percentages more than 10 points
  apart, the historical triple replaces the probabilities, the prediction and the final
  string; otherwise \<^verbatim>\<open>determine_final_prediction\<close> is consulted and the outcome is
  overridden by the argmax when the probabilities differ by at least \<open>0.05\<close>. The value is
  \<^verbatim>\<open>(prob_dict, prediction, confidence, outcome, final)\<close>; \<open>None\<close> is an exception.
\<close>

definition combine_with_history ::
    "(pyval \<Rightarrow> pyfloat option) \<Rightarrow> pyval \<Rightarrow> probs \<Rightarrow> prob_dict \<Rightarrow> int \<Rightarrow> real
       \<Rightarrow> (prob_dict \<times> int \<times> real \<times> string \<times> string) option" where
  "combine_with_history float pred ps prob_dict prediction conf =
     (let hist_probs_list = [probs_get ps ''Away Team Win'' 33.3, probs_get ps ''Draw'' 33.3,
                             probs_get ps ''Home Team Win'' 33.3];
          use_historical = (ps \<noteq> [] \<and> max3 (hist_probs_list ! 0) (hist_probs_list ! 1)
                                (hist_probs_list ! 2)
                              - min (min (hist_probs_list ! 0) (hist_probs_list ! 1))
                                  (hist_probs_list ! 2) > 10)
      in if use_historical then
           (let hist_prob_dict = [(0, probs_get ps ''Away Team Win'' 33.3 / 100.0),
                                  (1, probs_get ps ''Draw'' 33.3 / 100.0),
                                  (2, probs_get ps ''Home Team Win'' 33.3 / 100.0)];
                total_hist = total_of hist_prob_dict;
                hist_prob_dict = (if total_hist > 0 then divide_by total_hist hist_prob_dict
                                  else hist_prob_dict)
            in case max_key hist_prob_dict of
                 None \<Rightarrow> None
               | Some prediction \<Rightarrow>
                   Some (hist_prob_dict, prediction, prob_get hist_prob_dict prediction 0,
                         outcome_of prediction, outcome_of prediction))
         else if ps \<noteq> [] then
           (let final = determine_final_prediction float pred (Some ps);
                outcome = outcome_from_final final prediction
            in case (py_max (map snd prob_dict), py_min (map snd prob_dict)) of
                 (Some mx, Some mn) \<Rightarrow>
                   Some (prob_dict, prediction, conf,
                         if mx - mn \<ge> 0.05 then outcome_of prediction else outcome, final)
               | _ \<Rightarrow> None)
         else Some (prob_dict, prediction, conf, outcome_of prediction, outcome_of prediction))"

text \<open>
  The main path, in the order of the source. \<open>mtype\<close> is \<^verbatim>\<open>"Model1"\<close> or
  \<^verbatim>\<open>"Model2"\<close>, \<open>is_regressor\<close> as determined for Model2, \<open>data\<close> the dataset of the
  category. First the feature vector \<^verbatim>\<open>input_data\<close>.
\<close>

definition feature_vector ::
    "'f env \<Rightarrow> string \<Rightarrow> string \<Rightarrow> string \<Rightarrow> 'f py_model \<Rightarrow> table \<Rightarrow> 'f option" where
  "feature_vector env home away mtype model data =
     (if mtype = ''Model2''
      then (case preprocess_for_models env home away model data of
              Some x \<Rightarrow> Some x
            | None \<Rightarrow> compute_mean_for_teams env home away data model ''v1'')
      else compute_mean_for_teams env home away data model ''v1'')"

text \<open>
  The historical probabilities \<^verbatim>\<open>probs\<close>, with the model type, which becomes
  \<^verbatim>\<open>"Model2 (Form-based)"\<close> when the Model2 calculation finds nothing.
\<close>

definition historical_probabilities ::
    "'f env \<Rightarrow> string \<Rightarrow> string \<Rightarrow> string \<Rightarrow> table \<Rightarrow> probs \<times> string" where
  "historical_probabilities env home away mtype data =
     (if mtype = ''Model2''
      then (case calculate_probabilities_model2 home away data ''v2'' of
              Some ps \<Rightarrow> (ps, mtype)
            | None \<Rightarrow> (calculate_probabilities_original (e_md5 env) (e_load_football_data env 1)
                          home away data ''v1'', ''Model2 (Form-based)''))
      else (calculate_probabilities_original (e_md5 env) (e_load_football_data env 1)
              home away data ''v1'', mtype))"

text \<open>
  The probabilities before normalisation: for a regressor the historical percentages
  (after \<^verbatim>\<open>total_goals = float(pred)\<close>, which may raise), for a classifier the mapping
  of its class probabilities.
\<close>

definition model_probabilities ::
    "'f env \<Rightarrow> bool \<Rightarrow> 'f py_model \<Rightarrow> 'f \<Rightarrow> pyval \<Rightarrow> probs \<Rightarrow> prob_dict option" where
  "model_probabilities env is_regressor model input_data pred ps =
     (if is_regressor
      then (case e_float env pred of
              None \<Rightarrow> None
            | Some total_goals \<Rightarrow>
                Some (if ps \<noteq> []
                      then [(0, probs_get ps ''Away Team Win'' 0 / 100.0),
                            (1, probs_get ps ''Draw'' 0 / 100.0),
                            (2, probs_get ps ''Home Team Win'' 0 / 100.0)]
                      else default_probabilities))
      else (case predict_with_confidence model input_data of
              None \<Rightarrow> map_model_probabilities (classes model) None
            | Some (pred_label, pred_conf, full_conf) \<Rightarrow>
                if pred_label_raises pred_label then None
                else map_model_probabilities (classes model) (Some full_conf)))"

text \<open>
  The second \<^verbatim>\<open>model.predict\<close> of a regressor, for \<^verbatim>\<open>total_goals_prediction\<close>; an
  exception gives \<open>2.5\<close>.
\<close>

definition total_goals_of ::
    "'f env \<Rightarrow> bool \<Rightarrow> 'f py_model \<Rightarrow> 'f \<Rightarrow> pyfloat option" where
  "total_goals_of env is_regressor model input_data =
     (if is_regressor
      then (case predict model input_data of
              Inl e \<Rightarrow> Some (Finite 2.5)
            | Inr p \<Rightarrow> (case e_float env p of None \<Rightarrow> Some (Finite 2.5) | Some g \<Rightarrow> Some g))
      else None)"

definition predict_match ::
    "'f env \<Rightarrow> string \<Rightarrow> string \<Rightarrow> string \<Rightarrow> bool \<Rightarrow> 'f py_model \<Rightarrow> table
       \<Rightarrow> prediction_result option" where
  "predict_match env home away mtype is_regressor model data =
     (let input_data = feature_vector env home away mtype model data;
          (ps, mtype) = historical_probabilities env home away mtype data
      in case input_data of
           None \<Rightarrow> Some (no_features_fallback mtype ps)
         | Some x \<Rightarrow>
            (case raw_prediction model x of
               None \<Rightarrow> None
             | Some pred \<Rightarrow>
                (case model_probabilities env is_regressor model x pred ps of
                   None \<Rightarrow> None
                 | Some prob_dict \<Rightarrow>
                    (let prob_dict = historical_fallback ps prob_dict;
                         prob_dict = normalize_probabilities prob_dict;
                         form_diff =
                           calculate_team_strength (e_md5 env) (e_load_football_data env 1)
                             home ''home''
                           - calculate_team_strength (e_md5 env) (e_load_football_data env 1)
                               away ''away'';
                         prob_dict = form_based_correction form_diff prob_dict
                     in case max_key prob_dict of
                          None \<Rightarrow> None
                        | Some prediction \<Rightarrow>
                           (case combine_with_history (e_float env) pred ps prob_dict prediction
                                   (prob_get prob_dict prediction 0) of
                              None \<Rightarrow> None
                            | Some (prob_dict, prediction, conf, outcome_label, final) \<Rightarrow>
                               Some \<lparr>prediction_number = prediction,
                                     outcome = outcome_label,
                                     probabilities = final_validation prob_dict,
                                     confidence = conf,
                                     model_type = mtype,
                                     final_prediction = Some final,
                                     historical_probs = Some ps,
                                     total_goals_prediction =
                                       total_goals_of env is_regressor model x\<rparr>)))))"

text \<open>
  \<^verbatim>\<open>advanced_predict_match\<close>: the choice of the dataset and of the model by the
  categories of the two teams.
\<close>

definition advanced_predict_match ::
    "'f env \<Rightarrow> string \<Rightarrow> string \<Rightarrow> 'f py_model option \<Rightarrow> 'f py_model option
       \<Rightarrow> prediction_result option" where
  "advanced_predict_match env home away model1 model2 =
     (let both_main = (home \<in> e_main_teams env \<and> away \<in> e_main_teams env);
          both_other = (home \<in> e_other_teams env \<and> away \<in> e_other_teams env);
          required_dataset = (if both_main then 1 else if both_other then 2 else 1);
          data = e_load_football_data env required_dataset
      in if df_empty data then Some (form_based_fallback env home away)
         else if both_main then
           (case model1 of
              None \<Rightarrow> None
            | Some model \<Rightarrow> predict_match env home away ''Model1'' False model data)
         else if both_other then
           (case model2 of
              None \<Rightarrow> Some (model2_unavailable env home away data)
            | Some model \<Rightarrow>
                predict_match env home away ''Model2''
                  (is_random_forest_regressor model \<and> predict_proba model = None) model data)
         else None)"

section \<open>Valid inputs and outputs\<close>

text \<open>
  The predicates of the properties below. A dictionary is a distribution when its values
  are not negative and sum to 1. A table is letter-coded when every result is one of
  \<open>H\<close>, \<open>D\<close>, \<open>A\<close>. A model has non-negative class probabilities when every row that
  \<^verbatim>\<open>predict_proba\<close> returns has no negative entry. A pair of teams straddles the
  categories when one is in the European set and the other in the other set, and they are
  not both in one set.
\<close>

definition nonneg :: "('k \<times> real) list \<Rightarrow> bool" where
  "nonneg pd = list_all (\<lambda>(k, v). 0 \<le> v) pd"




definition straddles :: "'f env \<Rightarrow> string \<Rightarrow> string \<Rightarrow> bool" where
  "straddles env home away =
     (((home \<in> e_main_teams env \<and> away \<in> e_other_teams env)
       \<or> (home \<in> e_other_teams env \<and> away \<in> e_main_teams env))
      \<and> \<not> (home \<in> e_main_teams env \<and> away \<in> e_main_teams env)
      \<and> \<not> (home \<in> e_other_teams env \<and> away \<in> e_other_teams env))"




section \<open>Concrete inputs\<close>

text \<open>
  Rows and tables for the scenarios evaluated below: a played fixture with a letter-coded
  result and a date, and a table in the \<^verbatim>\<open>HomeTeam/AwayTeam/FTR\<close> schema as the loader
  tags it.
\<close>

definition fixture :: "string \<Rightarrow> string \<Rightarrow> string \<Rightarrow> int \<Rightarrow> row" where
  "fixture h a r t = \<lparr>home_team = Some h, away_team = Some a, result = Str r, date = Date t\<rparr>"

definition v1_table :: "row list \<Rightarrow> table" where
  "v1_table rs = \<lparr>columns = [''Date'', ''HomeTeam'', ''AwayTeam'', ''FTR''], rows = rs,
                   attrs_version = Some ''v1''\<rparr>"

text \<open>Five fixtures of team \<open>X\<close>: four defeats on days 1 to 4, then a home win on day 5.\<close>

definition recent_win_table :: table where
  "recent_win_table = v1_table
     [fixture ''X'' ''Y'' ''A'' 1, fixture ''Y'' ''X'' ''H'' 2, fixture ''X'' ''Z'' ''A'' 3,
      fixture ''Z'' ''X'' ''H'' 4, fixture ''X'' ''Y'' ''H'' 5]"

text \<open>Two fixtures of team \<open>X\<close>: a defeat on day 1 and a win on day 2.\<close>

definition two_match_table :: table where
  "two_match_table = v1_table [fixture ''X'' ''Y'' ''A'' 1, fixture ''X'' ''Z'' ''H'' 2]"

text \<open>
  The end-to-end scenario of the specification: three fixtures of \<open>TeamX\<close> at home
  against \<open>TeamY\<close>, two home wins and a draw.
\<close>

definition h2h_table :: table where
  "h2h_table = v1_table
     [fixture ''TeamX'' ''TeamY'' ''H'' 1, fixture ''TeamX'' ''TeamY'' ''H'' 2,
      fixture ''TeamX'' ''TeamY'' ''D'' 3]"

text \<open>A hash function for the scenarios that do not reach the synthetic form.\<close>

definition md5_zero :: "string \<Rightarrow> int" where
  "md5_zero s = 0"

text \<open>
  Three fixtures of Arsenal at home against Chelsea. In the first table Arsenal wins
  twice and draws once (historical percentages 66.7, 33.3, 0); in the second each outcome
  occurs once (33.3 each).
\<close>

definition arsenal_chelsea_table :: table where
  "arsenal_chelsea_table = v1_table
     [fixture ''Arsenal'' ''Chelsea'' ''H'' 1, fixture ''Arsenal'' ''Chelsea'' ''H'' 2,
      fixture ''Arsenal'' ''Chelsea'' ''D'' 3]"


text \<open>
  A classifier with the given class labels that returns the same probability row and the
  same prediction on every input, and an environment with two teams in each category,
  the given tables as datasets 1 and 2, and feature builders that succeed.
\<close>

definition constant_model :: "pyval list \<Rightarrow> real list \<Rightarrow> pyval \<Rightarrow> unit py_model" where
  "constant_model labels proba pred =
     \<lparr>predict = (\<lambda>x. Inr pred), predict_proba = Some (\<lambda>x. Inr proba),
      classes = Some labels, is_random_forest_regressor = False\<rparr>"

definition example_env :: "table \<Rightarrow> table \<Rightarrow> unit env" where
  "example_env data1 data2 =
     \<lparr>e_md5 = md5_zero, e_float = py_float,
      e_main_teams = {''Arsenal'', ''Chelsea''}, e_other_teams = {''Basel'', ''Zurich''},
      e_load_football_data = (\<lambda>dataset. if dataset = 2 then data2 else data1),
      e_mean_features = (\<lambda>model h2h. Some ()),
      e_form_features = (\<lambda>model home away data. Some ())\<rparr>"




section \<open>Properties of \<^verbatim>\<open>determine_final_prediction\<close>\<close>

lemma model_outcome_of_class_index:
  "model_outcome_of (Finite 0) = Some ''Away Team Win''"
  "model_outcome_of (Finite 1) = Some ''Draw''"
  "model_outcome_of (Finite 2) = Some ''Home Team Win''"
  by (simp_all add: model_outcome_of_def)

lemma clear_home_winner:
  assumes f: "float pred = Some v" and m: "model_outcome_of v = Some m"
    and less: "d < h - 5" "a < h - 5"
  shows "determine_final_prediction float pred (Some (triple h d a)) = m"
proof -
  have mx: "max (max h d) a = h"
    using less by simp
  have ne: "d \<noteq> h" "a \<noteq> h" "\<not> \<bar>d - h\<bar> \<le> 5" "\<not> \<bar>a - h\<bar> \<le> 5"
    using less by simp_all
  show ?thesis
    by (simp add: determine_final_prediction_def triple_def Let_def f m mx ne)
qed

lemma clear_draw_winner:
  assumes f: "float pred = Some v" and m: "model_outcome_of v = Some m"
    and less: "h < d - 5" "a < d - 5"
  shows "determine_final_prediction float pred (Some (triple h d a)) = m"
proof -
  have mx: "max (max h d) a = d"
    using less by simp
  have ne: "h \<noteq> d" "a \<noteq> d" "\<not> \<bar>h - d\<bar> \<le> 5" "\<not> \<bar>a - d\<bar> \<le> 5"
    using less by simp_all
  show ?thesis
    by (simp add: determine_final_prediction_def triple_def Let_def f m mx ne)
qed

lemma clear_away_winner:
  assumes f: "float pred = Some v" and m: "model_outcome_of v = Some m"
    and less: "h < a - 5" "d < a - 5"
  shows "determine_final_prediction float pred (Some (triple h d a)) = m"
proof -
  have mx: "max (max h d) a = a"
    using less by simp
  have ne: "h \<noteq> a" "d \<noteq> a" "\<not> \<bar>h - a\<bar> \<le> 5" "\<not> \<bar>d - a\<bar> \<le> 5"
    using less by simp_all
  show ?thesis
    by (simp add: determine_final_prediction_def triple_def Let_def f m mx ne)
qed

text \<open>
  The buckets of Step 1 on a finite value: the exact class indices are tested first, so
  \<open>1\<close> (which also lies in \<open>[0.5, 1.4]\<close>) is Draw and \<open>2\<close> (which also lies in
  \<open>[1.5, 2.4]\<close>) is Home.
\<close>

lemma model_outcome_of_buckets:
  "x = 0 \<or> (0.5 \<le> x \<and> x \<le> 1.4 \<and> x \<noteq> 1)
     \<Longrightarrow> model_outcome_of (Finite x) = Some ''Away Team Win''"
  "x = 1 \<or> (1.5 \<le> x \<and> x \<le> 2.4 \<and> x \<noteq> 2)
     \<Longrightarrow> model_outcome_of (Finite x) = Some ''Draw''"
  "x = 2 \<or> (2.5 \<le> x \<and> x \<le> 3.4)
     \<Longrightarrow> model_outcome_of (Finite x) = Some ''Home Team Win''"
  by (auto simp: model_outcome_of_def)

text \<open>With one clear historical winner, Case 1 returns the outcome of Step 1.\<close>

lemma clear_winner_returns_model_outcome:
  assumes "float pred = Some v" and "model_outcome_of v = Some m"
    and "clear_winner h d a"
  shows "determine_final_prediction float pred (Some (triple h d a)) = m"
proof -
  from assms(3) consider "d < h - 5" "a < h - 5" | "h < d - 5" "a < d - 5"
    | "h < a - 5" "d < a - 5"
    unfolding clear_winner_def by blast
  then show ?thesis
  proof cases
    case 1
    with assms(1,2) show ?thesis by (rule clear_home_winner)
  next
    case 2
    with assms(1,2) show ?thesis by (rule clear_draw_winner)
  next
    case 3
    with assms(1,2) show ?thesis by (rule clear_away_winner)
  qed
qed

text \<open>
  Claim C1. Whenever the historical triple has one clear winner (a unique maximum, the
  other two outcomes more than 5 points below it) and the raw prediction converts to a
  number of a bucket, the function returns the model's outcome, whichever outcome the
  history favours: Away for \<open>0\<close> and \<open>[0.5, 1.4]\<close>, Draw for \<open>1\<close> and \<open>[1.5, 2.4]\<close>, Home
  for \<open>2\<close> and \<open>[2.5, 3.4]\<close>.
\<close>

theorem model_priority_on_clear_winner:
  assumes "float pred = Some (Finite x)" and "clear_winner h d a"
  shows "(x = 0 \<or> (0.5 \<le> x \<and> x \<le> 1.4 \<and> x \<noteq> 1)
            \<longrightarrow> determine_final_prediction float pred (Some (triple h d a)) = ''Away Team Win'')
       \<and> (x = 1 \<or> (1.5 \<le> x \<and> x \<le> 2.4 \<and> x \<noteq> 2)
            \<longrightarrow> determine_final_prediction float pred (Some (triple h d a)) = ''Draw'')
       \<and> (x = 2 \<or> (2.5 \<le> x \<and> x \<le> 3.4)
            \<longrightarrow> determine_final_prediction float pred (Some (triple h d a)) = ''Home Team Win'')"
proof (intro conjI impI)
  assume "x = 0 \<or> (0.5 \<le> x \<and> x \<le> 1.4 \<and> x \<noteq> 1)"
  then have "model_outcome_of (Finite x) = Some ''Away Team Win''"
    by (rule model_outcome_of_buckets)
  with assms(1) show "determine_final_prediction float pred (Some (triple h d a)) = ''Away Team Win''"
    using assms(2) by (rule clear_winner_returns_model_outcome)
next
  assume "x = 1 \<or> (1.5 \<le> x \<and> x \<le> 2.4 \<and> x \<noteq> 2)"
  then have "model_outcome_of (Finite x) = Some ''Draw''"
    by (rule model_outcome_of_buckets)
  with assms(1) show "determine_final_prediction float pred (Some (triple h d a)) = ''Draw''"
    using assms(2) by (rule clear_winner_returns_model_outcome)
next
  assume "x = 2 \<or> (2.5 \<le> x \<and> x \<le> 3.4)"
  then have "model_outcome_of (Finite x) = Some ''Home Team Win''"
    by (rule model_outcome_of_buckets)
  with assms(1) show "determine_final_prediction float pred (Some (triple h d a)) = ''Home Team Win''"
    using assms(2) by (rule clear_winner_returns_model_outcome)
qed

text \<open>
  The scenario of the specification: history \<open>{Home: 20, Draw: 25, Away: 55}\<close> favours
  the away side, the model predicts class 2 (Home), and the result is
  \<^verbatim>\<open>"Home Team Win"\<close>. With the history \<open>{Home: 55, Draw: 25, Away: 20}\<close>, which favours
  the home side, the raw predictions \<open>0.7\<close> and \<open>1.9\<close> give \<^verbatim>\<open>"Away Team Win"\<close> and
  \<^verbatim>\<open>"Draw"\<close>.
\<close>

theorem model_priority_on_clear_winner_witness:
  "py_float (PyInt 2) = Some (Finite 2)
   \<and> clear_winner 20 25 55
   \<and> determine_final_prediction py_float (PyInt 2) (Some (triple 20 25 55)) = ''Home Team Win''
   \<and> py_float (PyFloat (Finite 0.7)) = Some (Finite 0.7)
   \<and> clear_winner 55 25 20
   \<and> determine_final_prediction py_float (PyFloat (Finite 0.7)) (Some (triple 55 25 20))
        = ''Away Team Win''
   \<and> py_float (PyFloat (Finite 1.9)) = Some (Finite 1.9)
   \<and> determine_final_prediction py_float (PyFloat (Finite 1.9)) (Some (triple 55 25 20))
        = ''Draw''"
proof -
  have f: "py_float (PyInt 2) = Some (Finite 2)"
    and g: "py_float (PyFloat (Finite 0.7)) = Some (Finite 0.7)"
    and k: "py_float (PyFloat (Finite 1.9)) = Some (Finite 1.9)"
    by (simp_all add: overflow_bound_def)
  have c: "clear_winner 20 25 55" and e: "clear_winner 55 25 20"
    by (simp_all add: clear_winner_def)
  show ?thesis
    using f g k c e model_priority_on_clear_winner [of py_float "PyInt 2" 2 20 25 55]
      model_priority_on_clear_winner [of py_float "PyFloat (Finite 0.7)" "0.7" 55 25 20]
      model_priority_on_clear_winner [of py_float "PyFloat (Finite 1.9)" "1.9" 55 25 20]
    by simp
qed

text \<open>
  With all three outcomes exactly tied, the list of highest outcomes holds all three
  labels, so the Home-and-Away branch (Case 2) is taken before the all-tied branch
  (Case 5) is reached.
\<close>

lemma all_three_tied:
  assumes f: "float pred = Some v" and m: "model_outcome_of v = Some m"
  shows "determine_final_prediction float pred (Some (triple p p p)) =
     (if m = ''Draw'' then ''Home Team Win or Away Team Win'' else m)"
  by (simp add: determine_final_prediction_def triple_def Let_def f m)

text \<open>
  Claim C2. The claim says that on an exact three-way tie the model's prediction is
  returned, also when it is Draw. On the triple \<open>(100/3, 100/3, 100/3)\<close> with the model
  predicting class 1 (Draw) the function returns the double-chance label
  \<^verbatim>\<open>"Home Team Win or Away Team Win"\<close>.
\<close>

theorem all_tied_draw_gives_double_chance:
  "determine_final_prediction py_float (PyInt 1) (Some (triple (100/3) (100/3) (100/3)))
     = ''Home Team Win or Away Team Win''"
  by (simp add: determine_final_prediction_def triple_def model_outcome_of_class_index Let_def
        overflow_bound_def)

text \<open>
  Claim C10. When the conversion of the raw prediction to a float raises, the
  \<^verbatim>\<open>except\<close> clause returns \<^verbatim>\<open>"Home Team Win"\<close>, whatever the historical probabilities
  are, and this is not the invalid-prediction string. The builtin raises on each of the
  class labels \<open>H\<close>, \<open>D\<close>, \<open>A\<close>, so each of them gives \<^verbatim>\<open>"Home Team Win"\<close>, which for \<open>D\<close>
  and \<open>A\<close> is not the outcome the label names.
\<close>

theorem conversion_failure_gives_home_win:
  assumes "float pred = None"
  shows "determine_final_prediction float pred probs = ''Home Team Win''
         \<and> determine_final_prediction float pred probs \<noteq> invalid_prediction
         \<and> (\<forall>label \<in> {''H'', ''D'', ''A''}.
               py_float (PyStr label) = None
               \<and> determine_final_prediction py_float (PyStr label) probs = ''Home Team Win'')
         \<and> named_outcome (PyStr ''D'') = Some ''Draw''
         \<and> named_outcome (PyStr ''A'') = Some ''Away Team Win''"
proof -
  have a: "determine_final_prediction float pred probs = ''Home Team Win''"
    using assms by (simp add: determine_final_prediction_def)
  have b: "''Home Team Win'' \<noteq> invalid_prediction"
    by (simp add: invalid_prediction_def)
  have l: "py_float (PyStr ''H'') = None" "py_float (PyStr ''D'') = None"
    "py_float (PyStr ''A'') = None"
    by code_simp+
  have n: "named_outcome (PyStr ''D'') = Some ''Draw''"
    "named_outcome (PyStr ''A'') = Some ''Away Team Win''"
    by code_simp+
  show ?thesis
    using a b l n by (simp add: determine_final_prediction_def)
qed

text \<open>The label \<open>A\<close> names the away win, and the function returns the home win.\<close>

theorem conversion_failure_gives_home_win_witness:
  "py_float (PyStr ''A'') = None
   \<and> named_outcome (PyStr ''A'') = Some ''Away Team Win''
   \<and> determine_final_prediction py_float (PyStr ''A'') (Some (triple 20 25 55)) = ''Home Team Win''
   \<and> determine_final_prediction py_float (PyStr ''A'') (Some (triple 20 25 55)) \<noteq> invalid_prediction"
proof -
  have f: "py_float (PyStr ''A'') = None"
    by code_simp
  show ?thesis
    using f conversion_failure_gives_home_win [of py_float "PyStr ''A''" "Some (triple 20 25 55)"]
    by (simp add: invalid_prediction_def)
qed

text \<open>
  The claim says that the returned string is never the outcome the label names. The
  label \<open>H\<close> names the home win, its conversion raises like that of the other labels, and
  the function returns \<^verbatim>\<open>"Home Team Win"\<close>: the outcome the label names.
\<close>

theorem conversion_failure_counterexample:
  "py_float (PyStr ''H'') = None
   \<and> named_outcome (PyStr ''H'') = Some ''Home Team Win''
   \<and> determine_final_prediction py_float (PyStr ''H'') (Some (triple 20 25 55)) = ''Home Team Win''"
  by code_simp

section \<open>Properties of the team form calculators\<close>











text \<open>With two real matches the original calculator pads the form with three \<open>D\<close>.\<close>

lemma original_form_pads_with_D:
  "get_team_recent_form_original md5_zero ''X'' two_match_table ''v1'' = ''WLDDD''"
  by code_simp



section \<open>Properties of the weighted form strength\<close>

lemma weight_nonneg: "0 \<le> (if i < length weights then weights ! i else 1.0)"
proof -
  have "\<forall>w \<in> set weights. 0 \<le> w"
    by (simp add: weights_def)
  then show ?thesis
    by (auto simp: all_set_conv_all_nth)
qed

lemma form_points_range: "0 \<le> form_points c \<and> form_points c \<le> 3"
  by (simp add: form_points_def)

lemma weighted_points_loop_invariant:
  assumes "0 \<le> wp" and "wp \<le> mwp"
  shows "case foldl (\<lambda>(weighted_points, max_weighted_points) (i, res).
              (let points = form_points res;
                   weight = (if i < length weights then weights ! i else 1.0)
               in (weighted_points + points * weight, max_weighted_points + 3 * weight)))
       (wp, mwp) xs of (a, b) \<Rightarrow> 0 \<le> a \<and> a \<le> b"
  using assms
proof (induction xs arbitrary: wp mwp)
  case Nil
  then show ?case by simp
next
  case (Cons x xs)
  obtain i res where x: "x = (i, res)"
    by (cases x)
  let ?w = "if i < length weights then weights ! i else 1.0"
  have w: "0 \<le> ?w"
    by (rule weight_nonneg)
  have p: "0 \<le> form_points res" "form_points res \<le> 3"
    using form_points_range by auto
  have a: "0 \<le> wp + form_points res * ?w"
    using Cons.prems p w by simp
  have "form_points res * ?w \<le> 3 * ?w"
    using p w by (rule_tac mult_right_mono) auto
  then have b: "wp + form_points res * ?w \<le> mwp + 3 * ?w"
    using Cons.prems by simp
  show ?case
    using Cons.IH [OF a b] by (simp add: x Let_def)
qed

text \<open>The strength before the adjustment lies in \<open>[0, 1]\<close>, for every form string.\<close>

lemma weighted_form_strength_range:
  "0 \<le> weighted_form_strength s \<and> weighted_form_strength s \<le> 1"
proof -
  obtain a b where ab: "weighted_points_loop s = (a, b)"
    by (cases "weighted_points_loop s")
  have "0 \<le> a \<and> a \<le> b"
    using weighted_points_loop_invariant [of 0 0 "enumerate 0 (take 5 s)"] ab
    by (simp add: weighted_points_loop_def)
  then show ?thesis
    by (simp add: weighted_form_strength_def ab)
qed

text \<open>
  On a form of five characters the weighted sum is divided by \<open>3 \<times> \<Sum>weights = 21\<close>, and
  the weight \<open>1.8\<close> goes to the character at index 4.
\<close>

lemma weighted_form_strength_five:
  "weighted_form_strength [a, b, c, d, e] =
     (1.0 * form_points a + 1.2 * form_points b + 1.4 * form_points c
        + 1.6 * form_points d + 1.8 * form_points e) / (3 * (1.0 + 1.2 + 1.4 + 1.6 + 1.8))"
  by (simp add: weighted_form_strength_def weighted_points_loop_def weights_def
        enumerate_eq_zip upt_rec Let_def)

lemma calculate_team_strength_range:
  "0 \<le> calculate_team_strength md5 data1 team home_away
   \<and> calculate_team_strength md5 data1 team home_away \<le> 1"
  by (simp add: calculate_team_strength_def Let_def)

text \<open>
  Claim C9. The form string is most recent first: team \<open>X\<close>, whose latest match (day 5) is
  a win after four defeats, has the form \<^verbatim>\<open>"WLLLL"\<close>. The weights are indexed from the
  front of that string, so the latest match gets the weight \<open>1.0\<close> and the strength is
  \<open>3 \<times> 1.0 / 21 = 1/7\<close>; with the weight \<open>1.8\<close> on the latest match, as the claim says, it
  would be \<open>3 \<times> 1.8 / 21 = 9/35\<close>, which is what the code gives to the form \<^verbatim>\<open>"LLLLW"\<close>,
  whose win is the oldest of the five matches.
\<close>

theorem most_recent_match_gets_lowest_weight:
  "get_team_recent_form_original md5_zero ''X'' recent_win_table ''v1'' = ''WLLLL''
   \<and> weighted_form_strength ''WLLLL'' = 1 / 7
   \<and> weighted_form_strength ''LLLLW'' = 9 / 35
   \<and> calculate_team_strength md5_zero recent_win_table ''X'' ''home'' = 1 / 7 + 0.08"
  by code_simp

section \<open>Properties of the historical probabilities\<close>

lemma select_fixtures_filter:
  "select_fixtures h a rs =
     filter (\<lambda>r. py_strip (astype_str (home_team r)) = h
                 \<and> py_strip (astype_str (away_team r)) = a) rs"
proof -
  have "filter (\<lambda>r. py_strip (astype_str (away_team r)) = a)
          (filter (\<lambda>r. py_strip (astype_str (home_team r)) = h) rs)
        = filter (\<lambda>r. py_strip (astype_str (home_team r)) = h
                      \<and> py_strip (astype_str (away_team r)) = a) rs"
    by (simp add: conj_commute)
  moreover have "filter (\<lambda>r. py_strip (astype_str (home_team r)) = h) rs = [] \<Longrightarrow>
     filter (\<lambda>r. py_strip (astype_str (home_team r)) = h
                 \<and> py_strip (astype_str (away_team r)) = a) rs = []"
    by (simp add: filter_empty_conv)
  ultimately show ?thesis
    by (simp add: select_fixtures_def Let_def)
qed

lemma select_fixtures_mirror:
  "select_fixtures h a (map mirror_row rs) = map mirror_row (select_fixtures a h rs)"
  by (simp add: select_fixtures_filter filter_map comp_def mirror_row_def conj_commute)

lemma invert_result_involution: "invert_result (invert_result c) = c"
  by (simp add: invert_result_def)

lemma result_mirror_row: "(result (mirror_row r) = c) = (result r = invert_result c)"
proof -
  have "result (mirror_row r) = invert_result (result r)"
    by (simp add: mirror_row_def)
  then show ?thesis
    using invert_result_involution by metis
qed

lemma count_result_mirror:
  "count_result c (map mirror_row rs) = count_result (invert_result c) rs"
  by (simp add: count_result_def filter_map comp_def result_mirror_row)

lemma invert_result_values:
  "invert_result (Str ''H'') = Str ''A''" "invert_result (Str ''A'') = Str ''H''"
  "invert_result (Str ''D'') = Str ''D''" "invert_result (Num 2) = Num 0"
  "invert_result (Num 0) = Num 2" "invert_result (Num 1) = Num 1"
  by (simp_all add: invert_result_def)

lemma is_numeric_invert: "is_numeric (invert_result c) = is_numeric c"
  by (simp add: invert_result_def is_numeric_def)

lemma count_result_Nil: "count_result c [] = 0"
  by (simp add: count_result_def)

text \<open>
  What the function computes when the table has the columns and at least one fixture
  between the two teams, in either direction: \<open>F1\<close> are the fixtures with \<open>home\<close> at
  home, \<open>F2\<close> the reverse fixtures, whose results are counted the other way round.
\<close>

lemma calculate_probabilities_original_h2h:
  assumes cols: "has_columns data version"
    and ne: "select_fixtures (py_strip home) (py_strip away) (rows data)
             @ select_fixtures (py_strip away) (py_strip home) (rows data) \<noteq> []"
  shows "calculate_probabilities_original md5 data1 home away data version =
    (let F1 = select_fixtures (py_strip home) (py_strip away) (rows data);
         F2 = select_fixtures (py_strip away) (py_strip home) (rows data);
         n = is_numeric (result (hd (F1 @ F2)));
         total = real (length (F1 @ F2))
     in triple
         (real (count_result (if n then Num 2 else Str ''H'') F1
                + count_result (if n then Num 0 else Str ''A'') F2) / total * 100)
         (real (count_result (if n then Num 1 else Str ''D'') F1
                + count_result (if n then Num 1 else Str ''D'') F2) / total * 100)
         (real (count_result (if n then Num 0 else Str ''A'') F1
                + count_result (if n then Num 2 else Str ''H'') F2) / total * 100))"
proof -
  obtain hc ac rc where g: "get_column_names version = (hc, ac, rc)"
    by (cases "get_column_names version") auto
  have c: "hc \<in> set (columns data)" "ac \<in> set (columns data)" "rc \<in> set (columns data)"
    using cols by (simp_all add: has_columns_def g)
  have rows_ne: "rows data \<noteq> []"
    using ne by (auto simp: select_fixtures_filter)
  have cols_ne: "columns data \<noteq> []"
    using c by auto
  have e: "\<not> df_empty data"
    by (simp add: df_empty_def rows_ne cols_ne)
  show ?thesis
    using ne
    by (simp add: calculate_probabilities_original_def Let_def g c e cols_ne count_result_Nil)
qed

lemma swap_home_away_triple: "swap_home_away (triple h d a) = triple a d h"
  by (simp add: swap_home_away_def triple_def prob_of_def)

lemma has_columns_mirror: "has_columns (mirror_table data) version = has_columns data version"
  by (simp add: has_columns_def mirror_table_def)

lemma rows_mirror: "rows (mirror_table data) = map mirror_row (rows data)"
  by (simp add: mirror_table_def)

text \<open>
  The symmetry holds for every table with the columns of the schema and at least one
  fixture between the two teams, whatever other rows it has.
\<close>

lemma h2h_symmetry_general:
  assumes cols: "has_columns data version"
    and ne: "select_fixtures (py_strip home) (py_strip away) (rows data)
             @ select_fixtures (py_strip away) (py_strip home) (rows data) \<noteq> []"
  shows "calculate_probabilities_original md5 data1 home away data version =
         swap_home_away
           (calculate_probabilities_original md5 data1 away home (mirror_table data) version)"
proof -
  let ?F1 = "select_fixtures (py_strip home) (py_strip away) (rows data)"
  let ?F2 = "select_fixtures (py_strip away) (py_strip home) (rows data)"
  have cols': "has_columns (mirror_table data) version"
    using cols by (simp add: has_columns_mirror)
  have F1': "select_fixtures (py_strip away) (py_strip home) (rows (mirror_table data))
               = map mirror_row ?F1"
    by (simp add: rows_mirror select_fixtures_mirror)
  have F2': "select_fixtures (py_strip home) (py_strip away) (rows (mirror_table data))
               = map mirror_row ?F2"
    by (simp add: rows_mirror select_fixtures_mirror)
  have ne': "select_fixtures (py_strip away) (py_strip home) (rows (mirror_table data))
             @ select_fixtures (py_strip home) (py_strip away) (rows (mirror_table data)) \<noteq> []"
    using ne by (simp add: F1' F2')
  have hd': "result (hd (map mirror_row ?F1 @ map mirror_row ?F2))
               = invert_result (result (hd (?F1 @ ?F2)))"
  proof -
    have "hd (map mirror_row (?F1 @ ?F2)) = mirror_row (hd (?F1 @ ?F2))"
      using ne by (rule hd_map)
    then have "hd (map mirror_row ?F1 @ map mirror_row ?F2) = mirror_row (hd (?F1 @ ?F2))"
      by (simp only: map_append)
    then show ?thesis
      by (simp add: mirror_row_def)
  qed
  show ?thesis
    unfolding calculate_probabilities_original_h2h [OF cols ne]
      calculate_probabilities_original_h2h [OF cols' ne'] F1' F2' Let_def hd' is_numeric_invert
    by (simp add: swap_home_away_triple count_result_mirror invert_result_values add.commute)
qed

text \<open>
  What the function computes when the table lacks a column or holds no fixture between
  the two teams: one of the two strength tables, on the strength difference of the two
  teams in dataset 1.
\<close>

lemma calculate_probabilities_original_fallback:
  assumes "\<not> (has_columns data version
              \<and> select_fixtures (py_strip home) (py_strip away) (rows data)
                @ select_fixtures (py_strip away) (py_strip home) (rows data) \<noteq> [])"
  shows "calculate_probabilities_original md5 data1 home away data version =
           (let strength_diff = home_strength (get_enhanced_features md5 data1 home away)
                                - away_strength (get_enhanced_features md5 data1 home away)
            in if df_empty data \<or> \<not> has_columns data version
               then percent_triple (strength_probabilities strength_diff)
               else percent_triple (no_h2h_probabilities strength_diff))"
proof -
  obtain hc ac rc where g: "get_column_names version = (hc, ac, rc)"
    by (cases "get_column_names version") auto
  show ?thesis
  proof (cases "df_empty data \<or> length (columns data) = 0")
    case True
    then have "df_empty data" by (auto simp: df_empty_def)
    then show ?thesis
      by (simp add: calculate_probabilities_original_def Let_def)
  next
    case False
    then have ne: "\<not> df_empty data" by simp
    show ?thesis
    proof (cases "has_columns data version")
      case c: False
      then have "\<not> (hc \<in> set (columns data) \<and> ac \<in> set (columns data) \<and> rc \<in> set (columns data))"
        by (simp add: has_columns_def g)
      then show ?thesis
        using False c by (auto simp: calculate_probabilities_original_def Let_def g)
    next
      case c: True
      then have cc: "hc \<in> set (columns data) \<and> ac \<in> set (columns data) \<and> rc \<in> set (columns data)"
        by (simp add: has_columns_def g)
      from c assms have e: "select_fixtures (py_strip home) (py_strip away) (rows data) = []"
         "select_fixtures (py_strip away) (py_strip home) (rows data) = []"
        by simp_all
      show ?thesis
        using False ne c cc e by (auto simp: calculate_probabilities_original_def Let_def g)
    qed
  qed
qed

lemma df_empty_mirror: "df_empty (mirror_table data) = df_empty data"
  by (simp add: df_empty_def mirror_table_def)

text \<open>
  Mirroring the table and keeping the call: the fixtures of the two directions change
  places, and the reverse tally counts the inverted results for the same sides. The first
  selected row decides whether the results are read as numbers; it has to be of the same
  kind in both selections.
\<close>

lemma mirror_invariance_general:
  assumes kind: "is_numeric (result (hd
             (select_fixtures (py_strip away) (py_strip home) (rows data)
              @ select_fixtures (py_strip home) (py_strip away) (rows data))))
           = is_numeric (result (hd
             (select_fixtures (py_strip home) (py_strip away) (rows data)
              @ select_fixtures (py_strip away) (py_strip home) (rows data))))"
  shows "calculate_probabilities_original md5 data1 home away (mirror_table data) version
         = calculate_probabilities_original md5 data1 home away data version"
proof -
  let ?F1 = "select_fixtures (py_strip home) (py_strip away) (rows data)"
  let ?F2 = "select_fixtures (py_strip away) (py_strip home) (rows data)"
  have F1': "select_fixtures (py_strip home) (py_strip away) (rows (mirror_table data))
               = map mirror_row ?F2"
    by (simp add: rows_mirror select_fixtures_mirror)
  have F2': "select_fixtures (py_strip away) (py_strip home) (rows (mirror_table data))
               = map mirror_row ?F1"
    by (simp add: rows_mirror select_fixtures_mirror)
  show ?thesis
  proof (cases "has_columns data version \<and> ?F1 @ ?F2 \<noteq> []")
    case False
    then have f': "\<not> (has_columns (mirror_table data) version
                  \<and> select_fixtures (py_strip home) (py_strip away) (rows (mirror_table data))
                    @ select_fixtures (py_strip away) (py_strip home) (rows (mirror_table data)) \<noteq> [])"
      by (auto simp: has_columns_mirror F1' F2')
    show ?thesis
      unfolding calculate_probabilities_original_fallback [OF False]
        calculate_probabilities_original_fallback [OF f']
      by (simp add: df_empty_mirror has_columns_mirror)
  next
    case True
    then have cols: "has_columns data version" and ne: "?F1 @ ?F2 \<noteq> []"
      by simp_all
    have cols': "has_columns (mirror_table data) version"
      using cols by (simp add: has_columns_mirror)
    have ne2: "?F2 @ ?F1 \<noteq> []"
      using ne by auto
    have ne': "select_fixtures (py_strip home) (py_strip away) (rows (mirror_table data))
             @ select_fixtures (py_strip away) (py_strip home) (rows (mirror_table data)) \<noteq> []"
      using ne by (auto simp: F1' F2')
    have hd': "result (hd (map mirror_row ?F2 @ map mirror_row ?F1))
               = invert_result (result (hd (?F2 @ ?F1)))"
    proof -
      have "hd (map mirror_row (?F2 @ ?F1)) = mirror_row (hd (?F2 @ ?F1))"
        using ne2 by (rule hd_map)
      then have "hd (map mirror_row ?F2 @ map mirror_row ?F1) = mirror_row (hd (?F2 @ ?F1))"
        by (simp only: map_append)
      then show ?thesis
        by (simp add: mirror_row_def)
    qed
    show ?thesis
      unfolding calculate_probabilities_original_h2h [OF cols ne]
        calculate_probabilities_original_h2h [OF cols' ne'] F1' F2' Let_def hd' is_numeric_invert
        kind
      by (simp add: count_result_mirror invert_result_values add.commute)
  qed
qed

text \<open>
  In a table that holds only fixtures of \<open>A\<close> at home against \<open>B\<close>, the first selection
  is the whole table and the reverse selection is empty (or the whole table, when the two
  trimmed names are equal).
\<close>

lemma only_fixtures_selection:
  assumes "\<forall>r \<in> set (rows T). is_fixture A B r"
  shows "select_fixtures (py_strip A) (py_strip B) (rows T) = rows T"
    and "select_fixtures (py_strip B) (py_strip A) (rows T) = rows T
         \<or> select_fixtures (py_strip B) (py_strip A) (rows T) = []"
proof -
  show "select_fixtures (py_strip A) (py_strip B) (rows T) = rows T"
    using assms by (simp add: select_fixtures_filter is_fixture_def)
  show "select_fixtures (py_strip B) (py_strip A) (rows T) = rows T
         \<or> select_fixtures (py_strip B) (py_strip A) (rows T) = []"
  proof (cases "py_strip A = py_strip B")
    case True
    then show ?thesis
      using assms by (simp add: select_fixtures_filter is_fixture_def)
  next
    case False
    then have "select_fixtures (py_strip B) (py_strip A) (rows T) = []"
      using assms by (auto simp: select_fixtures_filter is_fixture_def filter_empty_conv)
    then show ?thesis by simp
  qed
qed

text \<open>
  Claim C7. For a table \<open>T\<close> that holds only fixtures of \<open>A\<close> at home against \<open>B\<close>, the
  triple of \<open>(A, B)\<close> on the mirrored table is the triple of \<open>(A, B)\<close> on \<open>T\<close>, with no
  exchange of percentages: the mirrored rows are reverse fixtures, and the reverse tally
  credits their inverted results to the same sides. The Home and Away percentages are
  exchanged when the teams of the call are exchanged too: for \<open>T\<close> in the schema of
  \<open>version\<close> with at least one row, the triple of \<open>(A, B)\<close> on \<open>T\<close> is the triple of
  \<open>(B, A)\<close> on the mirrored table with Home and Away exchanged.
\<close>

theorem h2h_mirror_invariance:
  assumes "\<forall>r \<in> set (rows T). is_fixture A B r"
  shows "calculate_probabilities_original md5 data1 A B (mirror_table T) version
           = calculate_probabilities_original md5 data1 A B T version
         \<and> (has_columns T version \<and> rows T \<noteq> [] \<longrightarrow>
              calculate_probabilities_original md5 data1 A B T version
                = swap_home_away
                    (calculate_probabilities_original md5 data1 B A (mirror_table T) version))"
proof -
  note s = only_fixtures_selection [OF assms]
  have kind: "is_numeric (result (hd
             (select_fixtures (py_strip B) (py_strip A) (rows T)
              @ select_fixtures (py_strip A) (py_strip B) (rows T))))
           = is_numeric (result (hd
             (select_fixtures (py_strip A) (py_strip B) (rows T)
              @ select_fixtures (py_strip B) (py_strip A) (rows T))))"
    using s(2) by (auto simp: s(1))
  have a: "calculate_probabilities_original md5 data1 A B (mirror_table T) version
           = calculate_probabilities_original md5 data1 A B T version"
    using kind by (rule mirror_invariance_general)
  have b: "calculate_probabilities_original md5 data1 A B T version
                = swap_home_away
                    (calculate_probabilities_original md5 data1 B A (mirror_table T) version)"
    if "has_columns T version" and "rows T \<noteq> []"
  proof -
    from that(2) have "select_fixtures (py_strip A) (py_strip B) (rows T)
             @ select_fixtures (py_strip B) (py_strip A) (rows T) \<noteq> []"
      by (simp add: s(1))
    with that(1) show ?thesis
      by (rule h2h_symmetry_general)
  qed
  from a b show ?thesis by simp
qed

text \<open>
  The end-to-end scenario: two home wins and a draw of \<open>TeamX\<close> against \<open>TeamY\<close> give
  \<open>{Home: 66.7, Draw: 33.3, Away: 0}\<close> on the table and on the mirrored table.
\<close>

theorem h2h_mirror_invariance_witness:
  "list_all (is_fixture ''TeamX'' ''TeamY'') (rows h2h_table)
   \<and> has_columns h2h_table ''v1'' \<and> rows h2h_table \<noteq> []
   \<and> calculate_probabilities_original md5_zero empty_table ''TeamX'' ''TeamY''
        (mirror_table h2h_table) ''v1''
      = calculate_probabilities_original md5_zero empty_table ''TeamX'' ''TeamY'' h2h_table ''v1''
   \<and> calculate_probabilities_original md5_zero empty_table ''TeamX'' ''TeamY'' h2h_table ''v1''
      = swap_home_away (calculate_probabilities_original md5_zero empty_table ''TeamY'' ''TeamX''
          (mirror_table h2h_table) ''v1'')
   \<and> calculate_probabilities_original md5_zero empty_table ''TeamX'' ''TeamY'' h2h_table ''v1''
       = triple (200 / 3) (100 / 3) 0"
proof -
  have l: "list_all (is_fixture ''TeamX'' ''TeamY'') (rows h2h_table)"
    by code_simp
  then have f: "\<forall>r \<in> set (rows h2h_table). is_fixture ''TeamX'' ''TeamY'' r"
    by (simp add: list_all_iff)
  have c: "has_columns h2h_table ''v1''"
    by code_simp
  have r: "rows h2h_table \<noteq> []"
    by code_simp
  have e: "calculate_probabilities_original md5_zero empty_table ''TeamX'' ''TeamY'' h2h_table ''v1''
             = triple (200 / 3) (100 / 3) 0"
    by code_simp
  show ?thesis
    using h2h_mirror_invariance [OF f, of md5_zero empty_table "''v1''"] l c r e by simp
qed

text \<open>
  The claim says that the triple of the mirrored table, with its Home and Away
  percentages exchanged, is the triple of the table. In the scenario the exchanged triple
  of the mirrored table is \<open>{Home: 0, Draw: 33.3, Away: 66.7}\<close>.
\<close>

theorem h2h_mirror_counterexample:
  "list_all (is_fixture ''TeamX'' ''TeamY'') (rows h2h_table)
   \<and> calculate_probabilities_original md5_zero empty_table ''TeamX'' ''TeamY'' h2h_table ''v1''
       = triple (200 / 3) (100 / 3) 0
   \<and> swap_home_away (calculate_probabilities_original md5_zero empty_table ''TeamX'' ''TeamY''
        (mirror_table h2h_table) ''v1'')
       = triple 0 (100 / 3) (200 / 3)
   \<and> triple (200 / 3) (100 / 3) 0 \<noteq> triple 0 (100 / 3) (200 / 3)"
  by code_simp

section \<open>Properties of the choice of dataset and model\<close>

text \<open>
  Claim C8. For a pair of teams that straddles the two categories the function selects
  dataset 1; when that dataset is empty it returns the form-based fallback labelled
  \<open>Model1\<close>, and otherwise it returns \<open>None\<close> (the branch \<^verbatim>\<open>else: return None\<close>): no model
  is consulted.
\<close>

theorem mixed_categories_result:
  assumes "straddles env home away"
  shows "advanced_predict_match env home away model1 model2 =
           (if df_empty (e_load_football_data env 1)
            then Some (form_based_fallback env home away) else None)
         \<and> model_type (form_based_fallback env home away) = ''Model1 (Form-Based Fallback)''"
proof -
  have nm: "\<not> (home \<in> e_main_teams env \<and> away \<in> e_main_teams env)"
    and no: "\<not> (home \<in> e_other_teams env \<and> away \<in> e_other_teams env)"
    using assms by (simp_all add: straddles_def)
  have a: "advanced_predict_match env home away model1 model2 =
             (if df_empty (e_load_football_data env 1)
              then Some (form_based_fallback env home away) else None)"
    by (simp add: advanced_predict_match_def Let_def nm no)
  have b: "model_type (form_based_fallback env home away) = ''Model1 (Form-Based Fallback)''"
    by (simp add: form_based_fallback_def Let_def no split: prod.split)
  from a b show ?thesis by simp
qed

text \<open>
  Arsenal (European set) against Basel (other set) with no data at all: the form-based
  fallback of Model1.
\<close>

theorem mixed_categories_result_witness:
  "straddles (example_env empty_table empty_table) ''Arsenal'' ''Basel''
   \<and> advanced_predict_match (example_env empty_table empty_table) ''Arsenal'' ''Basel''
        (Some (constant_model [PyInt 0, PyInt 1, PyInt 2] [0.2, 0.3, 0.5] (PyInt 2)))
        (Some (constant_model [PyInt 0, PyInt 1, PyInt 2] [0.2, 0.3, 0.5] (PyInt 2)))
      = Some (form_based_fallback (example_env empty_table empty_table) ''Arsenal'' ''Basel'')
   \<and> model_type (form_based_fallback (example_env empty_table empty_table) ''Arsenal'' ''Basel'')
      = ''Model1 (Form-Based Fallback)''"
proof -
  have s: "straddles (example_env empty_table empty_table) ''Arsenal'' ''Basel''"
    by code_simp
  have e: "df_empty (e_load_football_data (example_env empty_table empty_table) 1)"
    by code_simp
  show ?thesis
    using mixed_categories_result [OF s,
        of "Some (constant_model [PyInt 0, PyInt 1, PyInt 2] [0.2, 0.3, 0.5] (PyInt 2))"
           "Some (constant_model [PyInt 0, PyInt 1, PyInt 2] [0.2, 0.3, 0.5] (PyInt 2))"] s e
    by simp
qed

text \<open>
  The same pair with the European dataset loaded and both models present: the result is
  \<open>None\<close>, not a prediction of the European pair.
\<close>

theorem mixed_categories_counterexample:
  "straddles (example_env arsenal_chelsea_table empty_table) ''Arsenal'' ''Basel''
   \<and> \<not> df_empty (e_load_football_data (example_env arsenal_chelsea_table empty_table) 1)
   \<and> advanced_predict_match (example_env arsenal_chelsea_table empty_table) ''Arsenal'' ''Basel''
        (Some (constant_model [PyInt 0, PyInt 1, PyInt 2] [0.2, 0.3, 0.5] (PyInt 2)))
        (Some (constant_model [PyInt 0, PyInt 1, PyInt 2] [0.2, 0.3, 0.5] (PyInt 2)))
      = None"
  by code_simp

section \<open>Properties of the normalisation (Step D)\<close>

text \<open>
  Claim C5. The class probabilities \<open>0.2\<close>, \<open>0.15\<close> and a stray percentage \<open>65.0\<close> of a
  classifier with the classes \<open>0, 1, 2\<close> are mapped as they are, and Step D then divides
  by their sum \<open>65.35\<close> before it looks for a value above \<open>1.0\<close>: class 2 ends with
  \<open>1300/1307\<close>, about \<open>0.9946\<close>, where division of the stray value by 100 followed by the
  normalisation would give \<open>0.65\<close>.
\<close>

theorem stray_percentage_is_not_corrected:
  "map_model_probabilities (Some [PyInt 0, PyInt 1, PyInt 2])
      (Some (dict_zip [PyInt 0, PyInt 1, PyInt 2] [0.2, 0.15, 65.0]))
     = Some [(0, 0.2), (1, 0.15), (2, 65.0)]
   \<and> normalize_probabilities [(0, 0.2), (1, 0.15), (2, 65.0)]
     = [(0, 4 / 1307), (1, 3 / 1307), (2, 1300 / 1307)]
   \<and> percent_to_decimal [(0, 0.2), (1, 0.15), (2, 65.0)] = [(0, 0.2), (1, 0.15), (2, 0.65)]
   \<and> divide_by (total_of [(0, 0.2), (1, 0.15), (2, 0.65)]) [(0, 0.2), (1, 0.15), (2, 0.65)]
     = [(0, 0.2), (1, 0.15), (2, 0.65)]"
  by code_simp

section \<open>Properties of the outcome of \<^verbatim>\<open>advanced_predict_match\<close>\<close>













section \<open>Properties of the probabilities of \<^verbatim>\<open>advanced_predict_match\<close>\<close>

subsection \<open>Steps D and E keep a distribution\<close>

lemma nonneg_Nil [simp]: "nonneg []"
  by (simp add: nonneg_def)
lemma nonneg_Cons [simp]: "nonneg ((k, v) # pd) = (0 \<le> v \<and> nonneg pd)"
  by (simp add: nonneg_def)
lemma total_of_Nil [simp]: "total_of [] = 0"
  by (simp add: total_of_def)
lemma total_of_Cons [simp]: "total_of ((k, v) # pd) = v + total_of pd"
  by (simp add: total_of_def)

















subsection \<open>The probabilities of the model and of the history\<close>

















subsection \<open>The historical triples\<close>

















subsection \<open>The results\<close>










end
